theory Spec2Isabelle
  imports Main "HOL-Library.Sublist" "HOL-Library.AList"
begin

section \<open>The webhook delivery queue of the WhatsApp gateway\<close>

text \<open>
  The repository keeps queued webhook deliveries in the Postgres table
  \<^verbatim>\<open>webhook_delivery_queue\<close> (schema.sql, lines 58 to 73) and reaches it through the
  Supabase client. Two modules implement the store: the durable store of
  \<^verbatim>\<open>config/database.js\<close> (the second module in src/config/database.lite.js, from line
  385 on) and the reduced store of \<^verbatim>\<open>config/database.lite.js\<close> (lines 1 to 384).

  The durable store is embedded in full. Of the reduced store the claim and the recovery
  sweep are embedded: their queries name the columns \<^verbatim>\<open>id\<close>, \<^verbatim>\<open>status\<close> and
  \<^verbatim>\<open>updated_at\<close> only. Its enqueue, due query, completion and failure functions name
  \<^verbatim>\<open>attempts\<close>, \<^verbatim>\<open>next_retry_at\<close> and \<^verbatim>\<open>completed_at\<close>, columns the table of
  schema.sql does not have, so on that table their queries are answered with an error
  whatever the rows are; they are not embedded.

  A table is the list of its rows, every store function takes the clock reading \<open>now\<close>
  (milliseconds, the value of \<^verbatim>\<open>new Date()\<close>) and the database, and returns its result
  together with the database it leaves behind. A function that can throw returns a sum,
  \<open>Inl\<close> carrying the exception.
\<close>

subsection \<open>Rows, errors and the backend\<close>

datatype status = Pending | Processing | Success | Completed | Failed | Dead_letter

text \<open>
  The \<^verbatim>\<open>status\<close> column holds the strings pending, processing, success, failed and
  dead_letter (schema.sql line 67); \<^verbatim>\<open>completeWebhookDelivery\<close> of the reduced store
  names completed as well.
\<close>

text \<open>A JSON value, as far as the queue looks into one: the payload of a delivery is
  stored and posted as it is.\<close>

datatype json = JString string | JTime int | JObject "(string \<times> json) list"

record queue_row =
  job_id :: nat
  account_id :: string
  webhook_id :: string
  webhook_url :: string
  webhook_secret :: "string option"
  payload :: json
  max_retries :: int
  status :: status
  response_status :: "int option"
  last_error :: "string option"
  created_at :: int
  updated_at :: int

text \<open>The durable store counts attempts in \<^verbatim>\<open>attempt_count\<close> and schedules by
  \<^verbatim>\<open>next_attempt_at\<close>, the columns of schema.sql.\<close>

record delivery = queue_row +
  attempt_count :: int
  next_attempt_at :: "int option"

text \<open>A row as the code of the reduced store names it: \<^verbatim>\<open>attempts\<close>,
  \<^verbatim>\<open>next_retry_at\<close> and \<^verbatim>\<open>completed_at\<close> instead. The two functions of the reduced
  store embedded below read and write none of the three.\<close>

record delivery_lite = queue_row +
  attempts :: int
  next_retry_at :: "int option"
  completed_at :: "int option"

text \<open>The error object of a Supabase reply: \<^verbatim>\<open>{ code, message }\<close>.\<close>

record pg_error =
  code :: string
  message :: string

text \<open>
  The database as the client sees it: the rows of the table, and the error every query
  is answered with while the backend is broken (\<open>None\<close> when it is healthy). A query
  answered with an error changes no row.
\<close>

record 'r queue_db =
  fault :: "pg_error option"
  rows :: "'r list"

datatype store_error = MissingWebhookQueueTableError | PgFailure pg_error

subsection \<open>Recognising the missing table\<close>

definition lower_char :: "char \<Rightarrow> char" where
  "lower_char c =
     (let n = (of_char c :: nat) in if 65 \<le> n \<and> n \<le> 90 then char_of (n + 32) else c)"

fun has_infix :: "string \<Rightarrow> string \<Rightarrow> bool" where
  "has_infix pat [] = (pat = [])"
| "has_infix pat (c # cs) = (prefix pat (c # cs) \<or> has_infix pat cs)"

text \<open>
  \<^verbatim>\<open>error?.code === 'PGRST205' && /webhook_delivery_queue/i.test(error?.message || '')\<close>
\<close>

definition isWebhookQueueMissingError :: "pg_error \<Rightarrow> bool" where
  "isWebhookQueueMissingError e =
     (code e = ''PGRST205'' \<and> has_infix ''webhook_delivery_queue'' (map lower_char (message e)))"

text \<open>The exception a failed query is turned into inside a store function.\<close>

definition raise_for :: "pg_error \<Rightarrow> store_error" where
  "raise_for e =
     (if isWebhookQueueMissingError e then MissingWebhookQueueTableError else PgFailure e)"

subsection \<open>The durable store (database.js)\<close>

record webhook =
  wh_id :: string
  url :: string
  secret :: "string option"
  headers :: "(string \<times> string) list option"
  wh_max_retries :: "int option"
  is_active :: bool

text \<open>JavaScript truthiness of an optional string: \<^verbatim>\<open>webhook.secret || null\<close>.\<close>

definition truthy :: "string option \<Rightarrow> string option" where
  "truthy s = (case s of None \<Rightarrow> None | Some v \<Rightarrow> (if v = [] then None else Some v))"

definition fresh_id :: "'a queue_row_scheme list \<Rightarrow> nat" where
  "fresh_id rs = Suc (foldr max (map job_id rs) 0)"

text \<open>
  \<^verbatim>\<open>enqueueWebhookDelivery({ accountId, webhook, payload, maxRetries })\<close> inserts one
  row; the columns the record does not name take the defaults of schema.sql (a generated
  id, \<^verbatim>\<open>attempt_count 0\<close>, the clock for \<^verbatim>\<open>created_at\<close> and \<^verbatim>\<open>updated_at\<close>). It
  logs and rethrows every error. The record names \<^verbatim>\<open>max_retries\<close>, so the column
  default does not apply to it: a call that passes a number stores that number, and a
  call that passes none stores NULL. The rows here keep a number in \<^verbatim>\<open>max_retries\<close>:
  for a call that passes none (\<open>None\<close>) the row of the model carries 5 where the stored
  row carries NULL, and no property below reads \<^verbatim>\<open>max_retries\<close> of a row enqueued
  that way.
\<close>

definition enqueueWebhookDelivery ::
  "int \<Rightarrow> string \<Rightarrow> webhook \<Rightarrow> json \<Rightarrow> int option \<Rightarrow> delivery queue_db
     \<Rightarrow> (store_error + delivery option) \<times> delivery queue_db" where
  "enqueueWebhookDelivery now accountId wh body maxRetries db =
     (case fault db of
        Some e \<Rightarrow> (Inl (raise_for e), db)
      | None \<Rightarrow>
          (let r = \<lparr> job_id = fresh_id (rows db), account_id = accountId,
                     webhook_id = wh_id wh, webhook_url = url wh,
                     webhook_secret = truthy (secret wh), payload = body,
                     max_retries = (case maxRetries of None \<Rightarrow> 5 | Some m \<Rightarrow> m),
                     status = Pending, response_status = None, last_error = None,
                     created_at = now, updated_at = now,
                     attempt_count = 0, next_attempt_at = Some now \<rparr>
           in (Inr (Some r), db\<lparr>rows := rows db @ [r]\<rparr>)))"

text \<open>
  \<^verbatim>\<open>getDueWebhookDeliveries(limit = 10)\<close>: the rows with status pending or failed and
  \<^verbatim>\<open>next_attempt_at <= now\<close>, ordered by \<^verbatim>\<open>next_attempt_at\<close> ascending, at most
  \<^verbatim>\<open>limit\<close> of them. Its catch block logs every error, the missing table included, and
  returns the empty list.
\<close>

definition is_due :: "int \<Rightarrow> delivery \<Rightarrow> bool" where
  "is_due now r =
     ((status r = Pending \<or> status r = Failed) \<and>
      (case next_attempt_at r of None \<Rightarrow> False | Some t \<Rightarrow> t \<le> now))"

definition attempt_key :: "delivery \<Rightarrow> int" where
  "attempt_key r = (case next_attempt_at r of None \<Rightarrow> 0 | Some t \<Rightarrow> t)"

definition getDueWebhookDeliveries ::
  "int \<Rightarrow> nat \<Rightarrow> delivery queue_db \<Rightarrow> store_error + delivery list" where
  "getDueWebhookDeliveries now limit db =
     (case fault db of
        Some e \<Rightarrow> Inr []
      | None \<Rightarrow> Inr (take limit (sort_key attempt_key (filter (is_due now) (rows db)))))"

text \<open>
  \<^verbatim>\<open>markWebhookDeliveryProcessing(job)\<close>: one conditional update,
  \<^verbatim>\<open>.eq('id', job.id).in('status', ['pending', 'failed'])\<close>, writing
  \<^verbatim>\<open>attempt_count: job.attempt_count + 1\<close> from the caller's copy of the row. It returns
  the first updated row, or null when no row matched or the query failed.
\<close>

definition claimable :: "delivery \<Rightarrow> delivery \<Rightarrow> bool" where
  "claimable job r = (job_id r = job_id job \<and> (status r = Pending \<or> status r = Failed))"

definition claimed :: "int \<Rightarrow> delivery \<Rightarrow> delivery \<Rightarrow> delivery" where
  "claimed now job r =
     r\<lparr> status := Processing, attempt_count := attempt_count job + 1,
        last_error := None, updated_at := now \<rparr>"

definition first_row :: "'a list \<Rightarrow> 'a option" where
  "first_row xs = (case xs of [] \<Rightarrow> None | x # _ \<Rightarrow> Some x)"

definition markWebhookDeliveryProcessing ::
  "int \<Rightarrow> delivery \<Rightarrow> delivery queue_db
     \<Rightarrow> (store_error + delivery option) \<times> delivery queue_db" where
  "markWebhookDeliveryProcessing now job db =
     (case fault db of
        Some e \<Rightarrow> (Inr None, db)
      | None \<Rightarrow>
          (Inr (first_row (map (claimed now job) (filter (claimable job) (rows db)))),
           db\<lparr>rows := map (\<lambda>r. if claimable job r then claimed now job r else r) (rows db)\<rparr>))"

text \<open>
  \<^verbatim>\<open>completeWebhookDelivery(jobId, responseStatus)\<close> and
  \<^verbatim>\<open>failWebhookDelivery(job, errorMessage, nextAttemptAt, isDeadLetter = false)\<close> update the
  rows with the given id, whatever their status; both answer true, or false after logging
  an error.
\<close>

definition completeWebhookDelivery ::
  "int \<Rightarrow> nat \<Rightarrow> int \<Rightarrow> delivery queue_db \<Rightarrow> (store_error + bool) \<times> delivery queue_db" where
  "completeWebhookDelivery now jobId responseStatus db =
     (case fault db of
        Some e \<Rightarrow> (Inr False, db)
      | None \<Rightarrow>
          (Inr True,
           db\<lparr>rows := map (\<lambda>r. if job_id r = jobId
                                then r\<lparr> status := Success, response_status := Some responseStatus,
                                        last_error := None, updated_at := now \<rparr>
                                else r) (rows db)\<rparr>))"

definition failWebhookDelivery ::
  "int \<Rightarrow> delivery \<Rightarrow> string \<Rightarrow> int option \<Rightarrow> bool \<Rightarrow> delivery queue_db
     \<Rightarrow> (store_error + bool) \<times> delivery queue_db" where
  "failWebhookDelivery now job errorMessage nextAttemptAt isDeadLetter db =
     (case fault db of
        Some e \<Rightarrow> (Inr False, db)
      | None \<Rightarrow>
          (Inr True,
           db\<lparr>rows := map (\<lambda>r. if job_id r = job_id job
                                then r\<lparr> status := (if isDeadLetter then Dead_letter else Failed),
                                        last_error := Some errorMessage,
                                        next_attempt_at := nextAttemptAt, updated_at := now \<rparr>
                                else r) (rows db)\<rparr>))"

text \<open>
  \<^verbatim>\<open>resetStuckWebhookDeliveries(minutes = 5)\<close>: with
  \<^verbatim>\<open>cutoff = Date.now() - minutes * 60000\<close>, the rows with
  \<^verbatim>\<open>.eq('status', 'processing').lte('updated_at', cutoff)\<close> become failed and due now.
  The update does not name \<^verbatim>\<open>updated_at\<close>; the trigger
  \<^verbatim>\<open>update_webhook_queue_updated_at\<close> of schema.sql sets it on every updated row.
  Errors are logged and rethrown.
\<close>

definition stuck :: "int \<Rightarrow> int \<Rightarrow> delivery \<Rightarrow> bool" where
  "stuck now minutes r = (status r = Processing \<and> updated_at r \<le> now - minutes * 60000)"

definition recovered :: "int \<Rightarrow> delivery \<Rightarrow> delivery" where
  "recovered now r =
     r\<lparr> status := Failed, next_attempt_at := Some now,
        last_error := Some ''Recovered from unexpected shutdown'', updated_at := now \<rparr>"

definition resetStuckWebhookDeliveries ::
  "int \<Rightarrow> int \<Rightarrow> delivery queue_db \<Rightarrow> (store_error + unit) \<times> delivery queue_db" where
  "resetStuckWebhookDeliveries now minutes db =
     (case fault db of
        Some e \<Rightarrow> (Inl (raise_for e), db)
      | None \<Rightarrow>
          (Inr (), db\<lparr>rows := map (\<lambda>r. if stuck now minutes r then recovered now r else r)
                                   (rows db)\<rparr>))"

text \<open>
  \<^verbatim>\<open>getWebhookQueueStats()\<close> counts the rows of the statuses pending, processing, failed
  and dead_letter, one query each. Inside the loop a missing table is rethrown; any other
  error is logged and the count is 0.
\<close>

definition count_status :: "status \<Rightarrow> delivery list \<Rightarrow> nat" where
  "count_status s rs = length (filter (\<lambda>r. status r = s) rs)"

definition getWebhookQueueStats :: "delivery queue_db \<Rightarrow> store_error + (status \<times> nat) list" where
  "getWebhookQueueStats db =
     (case fault db of
        Some e \<Rightarrow>
          (if isWebhookQueueMissingError e then Inl MissingWebhookQueueTableError
           else Inr (map (\<lambda>s. (s, 0)) [Pending, Processing, Failed, Dead_letter]))
      | None \<Rightarrow>
          Inr (map (\<lambda>s. (s, count_status s (rows db))) [Pending, Processing, Failed, Dead_letter]))"

subsection \<open>The reduced store (database.lite.js)\<close>

text \<open>
  The reduced store keeps the function names; the two functions embedded carry the suffix
  \<open>_lite\<close>. Its claim takes pending rows only and writes no counter, and its recovery
  sweep takes no threshold.
\<close>

text \<open>
  \<^verbatim>\<open>markWebhookDeliveryProcessing(job)\<close> of the reduced store:
  \<^verbatim>\<open>.update({ status: 'processing', updated_at }).eq('id', job.id).eq('status', 'pending')\<close>.
  Only the missing table is thrown; any other error ends in null.
\<close>

definition claimable_lite :: "delivery_lite \<Rightarrow> delivery_lite \<Rightarrow> bool" where
  "claimable_lite job r = (job_id r = job_id job \<and> status r = Pending)"

definition claimed_lite :: "int \<Rightarrow> delivery_lite \<Rightarrow> delivery_lite" where
  "claimed_lite now r = r\<lparr> status := Processing, updated_at := now \<rparr>"

definition markWebhookDeliveryProcessing_lite ::
  "int \<Rightarrow> delivery_lite \<Rightarrow> delivery_lite queue_db
     \<Rightarrow> (store_error + delivery_lite option) \<times> delivery_lite queue_db" where
  "markWebhookDeliveryProcessing_lite now job db =
     (case fault db of
        Some e \<Rightarrow>
          (if isWebhookQueueMissingError e then Inl MissingWebhookQueueTableError else Inr None, db)
      | None \<Rightarrow>
          (Inr (first_row (map (claimed_lite now) (filter (claimable_lite job) (rows db)))),
           db\<lparr>rows := map (\<lambda>r. if claimable_lite job r then claimed_lite now r else r)
                             (rows db)\<rparr>))"

text \<open>
  \<^verbatim>\<open>resetStuckWebhookDeliveries()\<close> of the reduced store takes no threshold:
  \<^verbatim>\<open>.update({ status: 'pending', updated_at }).eq('status', 'processing')\<close>.
\<close>

definition resetStuckWebhookDeliveries_lite ::
  "int \<Rightarrow> delivery_lite queue_db \<Rightarrow> (store_error + unit) \<times> delivery_lite queue_db" where
  "resetStuckWebhookDeliveries_lite now db =
     (case fault db of
        Some e \<Rightarrow> (Inr (), db)
      | None \<Rightarrow>
          (Inr (), db\<lparr>rows := map (\<lambda>r. if status r = Processing
                                         then r\<lparr> status := Pending, updated_at := now \<rparr>
                                         else r) (rows db)\<rparr>))"

subsection \<open>Sample rows and tables\<close>

text \<open>Concrete rows and tables on which the properties below are evaluated.\<close>

definition example_row :: delivery where
  "example_row =
     \<lparr> job_id = 1, account_id = ''acct'', webhook_id = ''wh'',
       webhook_url = ''https://example.test/hook'', webhook_secret = None,
       payload = JObject [], max_retries = 3, status = Pending, response_status = None,
       last_error = None, created_at = 0, updated_at = 0,
       attempt_count = 0, next_attempt_at = Some 0 \<rparr>"

definition example_row_lite :: delivery_lite where
  "example_row_lite =
     \<lparr> job_id = 1, account_id = ''acct'', webhook_id = ''wh'',
       webhook_url = ''https://example.test/hook'', webhook_secret = None,
       payload = JObject [], max_retries = 3, status = Pending, response_status = None,
       last_error = None, created_at = 0, updated_at = 0,
       attempts = 0, next_retry_at = Some 0, completed_at = None \<rparr>"

text \<open>Four rows of the durable store: a failed one due at 50, a pending one due at 20,
  a delivered one, and a pending one due at 900.\<close>

definition due_db :: "delivery queue_db" where
  "due_db = \<lparr> fault = None, rows =
     [example_row\<lparr> job_id := 1, next_attempt_at := Some 50, status := Failed, attempt_count := 1 \<rparr>,
      example_row\<lparr> job_id := 2, next_attempt_at := Some 20 \<rparr>,
      example_row\<lparr> job_id := 3, next_attempt_at := Some 10, status := Success \<rparr>,
      example_row\<lparr> job_id := 4, next_attempt_at := Some 900 \<rparr>] \<rparr>"

text \<open>Two pending rows as the reduced store names them.\<close>

definition due_db_lite :: "delivery_lite queue_db" where
  "due_db_lite = \<lparr> fault = None, rows =
     [example_row_lite\<lparr> job_id := 1, created_at := 1, next_retry_at := Some 50, attempts := 1 \<rparr>,
      example_row_lite\<lparr> job_id := 2, created_at := 2, next_retry_at := Some 2 \<rparr>] \<rparr>"

text \<open>Rows in processing, last updated 300000 ms (five minutes), 299999 ms and
  999900 ms before the clock reading 1000000, and a pending row.\<close>

definition stuck_db :: "delivery queue_db" where
  "stuck_db = \<lparr> fault = None, rows =
     [example_row\<lparr> job_id := 1, status := Processing, attempt_count := 1, updated_at := 700000 \<rparr>,
      example_row\<lparr> job_id := 2, status := Processing, attempt_count := 1, updated_at := 700001 \<rparr>,
      example_row\<lparr> job_id := 3, status := Processing, attempt_count := 2, updated_at := 100 \<rparr>,
      example_row\<lparr> job_id := 4, status := Pending, updated_at := 100 \<rparr>] \<rparr>"

text \<open>In the reduced store: a row claimed one millisecond before 1000000, and a failed one.\<close>

definition stuck_db_lite :: "delivery_lite queue_db" where
  "stuck_db_lite = \<lparr> fault = None, rows =
     [example_row_lite\<lparr> job_id := 1, status := Processing, updated_at := 999999 \<rparr>,
      example_row_lite\<lparr> job_id := 2, status := Failed, attempts := 3, updated_at := 100 \<rparr>] \<rparr>"

definition example_webhook :: webhook where
  "example_webhook = \<lparr> wh_id = ''wh'', url = ''https://example.test/hook'',
     secret = Some ''s3cret'', headers = None, wh_max_retries = Some 5,
     is_active = True \<rparr>"

text \<open>The reply of the backend when the queue table does not exist.\<close>

definition missing_table :: pg_error where
  "missing_table = \<lparr> code = ''PGRST205'',
     message = ''Could not find the table public.webhook_delivery_queue in the schema cache'' \<rparr>"

definition missing_db :: "delivery queue_db" where
  "missing_db = \<lparr> fault = Some missing_table, rows = [] \<rparr>"


text \<open>The second row of each sample table, as a worker reads it before claiming.\<close>

definition fresh_row :: delivery where
  "fresh_row = example_row\<lparr> job_id := 2, next_attempt_at := Some 20 \<rparr>"

definition fresh_row_lite :: delivery_lite where
  "fresh_row_lite = example_row_lite\<lparr> job_id := 2, created_at := 2, next_retry_at := Some 2 \<rparr>"

text \<open>A table of the reduced store with one pending row.\<close>

definition single_db_lite :: "delivery_lite queue_db" where
  "single_db_lite = \<lparr> fault = None, rows = [example_row_lite] \<rparr>"


subsection \<open>Histories of store operations\<close>

text \<open>
  The calls a worker, the facade or a start-up routine can make on the durable store, each
  at its own clock reading. \<open>Claim i\<close> is a claim issued from a copy of row \<open>i\<close> read just
  before the call (the row as stored); \<open>ClaimSnapshot job\<close> is a claim issued from whatever
  copy \<open>job\<close> the caller holds, possibly read before other calls changed the row.
  \<open>Backend f\<close> is the backend starting or ceasing to fail.
\<close>

datatype store_op =
    Enqueue string webhook json "int option"
  | Claim nat
  | ClaimSnapshot delivery
  | Complete nat int
  | Fail delivery string "int option" bool
  | ResetStuck int
  | Backend "pg_error option"

fun apply_op :: "int \<Rightarrow> store_op \<Rightarrow> delivery queue_db \<Rightarrow> delivery queue_db" where
  "apply_op now (Enqueue accountId wh body maxRetries) db =
     snd (enqueueWebhookDelivery now accountId wh body maxRetries db)"
| "apply_op now (Claim i) db =
     (case find (\<lambda>r. job_id r = i) (rows db) of
        None \<Rightarrow> db
      | Some job \<Rightarrow> snd (markWebhookDeliveryProcessing now job db))"
| "apply_op now (ClaimSnapshot job) db = snd (markWebhookDeliveryProcessing now job db)"
| "apply_op now (Complete i responseStatus) db =
     snd (completeWebhookDelivery now i responseStatus db)"
| "apply_op now (Fail job errorMessage nextAttemptAt isDeadLetter) db =
     snd (failWebhookDelivery now job errorMessage nextAttemptAt isDeadLetter db)"
| "apply_op now (ResetStuck minutes) db = snd (resetStuckWebhookDeliveries now minutes db)"
| "apply_op now (Backend f) db = db\<lparr> fault := f \<rparr>"

fun run_ops :: "(int \<times> store_op) list \<Rightarrow> delivery queue_db \<Rightarrow> delivery queue_db" where
  "run_ops [] db = db"
| "run_ops ((now, oper) # ops) db = run_ops ops (apply_op now oper db)"

fun from_current_copy :: "store_op \<Rightarrow> bool" where
  "from_current_copy (ClaimSnapshot job) = False"
| "from_current_copy oper = True"

text \<open>An empty table, the row a first enqueue at time 0 adds to it, and a history in
  which that row is delivered twice without success.\<close>

definition empty_db :: "delivery queue_db" where
  "empty_db = \<lparr> fault = None, rows = [] \<rparr>"

definition queued_row :: delivery where
  "queued_row =
     \<lparr> job_id = 1, account_id = ''acct'', webhook_id = ''wh'',
       webhook_url = ''https://example.test/hook'', webhook_secret = Some ''s3cret'',
       payload = JObject [], max_retries = 5, status = Pending, response_status = None,
       last_error = None, created_at = 0, updated_at = 0,
       attempt_count = 0, next_attempt_at = Some 0 \<rparr>"

definition queued_db :: "delivery queue_db" where
  "queued_db = \<lparr> fault = None, rows = [queued_row] \<rparr>"

definition retries :: "(int \<times> store_op) list" where
  "retries =
     [(1, Claim 1), (2, Fail queued_row ''HTTP 500'' (Some 30002) False),
      (40000, Claim 1), (40001, Fail queued_row ''HTTP 500'' (Some 100001) False)]"

definition two_failures :: "(int \<times> store_op) list" where
  "two_failures = (0, Enqueue ''acct'' example_webhook (JObject []) (Some 5)) # retries"


text \<open>A table grows from \<open>xs\<close> to \<open>ys\<close> when every row of \<open>xs\<close> is still there, at the same
  position and under the same id, with a counter that is no smaller.\<close>

definition grows :: "('a queue_row_scheme \<Rightarrow> int) \<Rightarrow> 'a queue_row_scheme list \<Rightarrow> 'a queue_row_scheme list \<Rightarrow> bool" where
  "grows cnt xs ys =
     (length xs \<le> length ys \<and>
      (\<forall>i < length xs. job_id (ys ! i) = job_id (xs ! i) \<and> cnt (xs ! i) \<le> cnt (ys ! i)))"



subsection \<open>The retry policy and the worker\<close>

text \<open>
  Modelled from the spec: the Retry/Backoff Policy (section 4.3). Its code is part of
  \<^verbatim>\<open>utils/webhookDeliveryService.js\<close>, a module the managers require and whose text is
  not available here. The delay after a
  failed attempt is \<^verbatim>\<open>base * 2^(attemptCount-1)\<close> with a base of 30 seconds and no cap;
  a record whose \<^verbatim>\<open>attemptCount\<close> has reached \<^verbatim>\<open>maxRetries\<close> is dead-lettered instead
  of rescheduled.
\<close>

definition backoff_base :: int where
  "backoff_base = 30000"

definition backoff_delay :: "int \<Rightarrow> int" where
  "backoff_delay attemptCount = backoff_base * 2 ^ nat (attemptCount - 1)"

record decision =
  retry :: bool
  nextAttemptAt :: int
  deadLetter :: bool

definition decide :: "int \<Rightarrow> int \<Rightarrow> int \<Rightarrow> decision" where
  "decide attemptCount maxRetries now =
     \<lparr> retry = (attemptCount < maxRetries),
       nextAttemptAt = now + backoff_delay attemptCount,
       deadLetter = (maxRetries \<le> attemptCount) \<rparr>"

text \<open>
  Modelled from the spec: the outcome of one attempt of the HTTP Delivery Client
  (section 4.2), a response with its status code or a network-level failure with its
  message; 2xx is success, everything else a failure.
\<close>

datatype attempt_result = Responded int | NetworkFailure string

fun succeeded :: "attempt_result \<Rightarrow> bool" where
  "succeeded (Responded s) = (200 \<le> s \<and> s < 300)"
| "succeeded (NetworkFailure m) = False"

fun failure_text :: "attempt_result \<Rightarrow> string" where
  "failure_text (Responded s) = ''HTTP error''"
| "failure_text (NetworkFailure m) = m"

text \<open>
  Modelled from the spec: what the Delivery Worker Loop (section 4.4, also part of
  \<^verbatim>\<open>utils/webhookDeliveryService.js\<close>) does with one due record \<open>job\<close>: claim it and skip
  it when the claim is lost; on success complete it; on failure consult the policy and
  call fail with the next attempt time or the dead-letter flag. The store functions it
  calls are the ones of database.js above.
\<close>

definition process_record ::
  "int \<Rightarrow> delivery \<Rightarrow> attempt_result \<Rightarrow> delivery queue_db \<Rightarrow> delivery queue_db" where
  "process_record now job result db =
     (case markWebhookDeliveryProcessing now job db of
        (Inr (Some won), db1) \<Rightarrow>
          (case result of
             Responded s \<Rightarrow>
               (if succeeded result then snd (completeWebhookDelivery now (job_id won) s db1)
                else snd (failWebhookDelivery now won (failure_text result)
                            (Some (nextAttemptAt (decide (attempt_count won) (max_retries won) now)))
                            (deadLetter (decide (attempt_count won) (max_retries won) now)) db1))
           | NetworkFailure m \<Rightarrow>
               snd (failWebhookDelivery now won (failure_text result)
                      (Some (nextAttemptAt (decide (attempt_count won) (max_retries won) now)))
                      (deadLetter (decide (attempt_count won) (max_retries won) now)) db1))
      | (other, db1) \<Rightarrow> db1)"

text \<open>The row with a given id, as a reader of the table finds it.\<close>

definition row_of :: "nat \<Rightarrow> 'a queue_row_scheme queue_db \<Rightarrow> 'a queue_row_scheme option" where
  "row_of i db = find (\<lambda>r. job_id r = i) (rows db)"




subsection \<open>Outbound HTTP\<close>

text \<open>
  A request as the code hands it to \<^verbatim>\<open>axios.post(url, body, { headers, timeout,
  validateStatus })\<close>. The headers are the JavaScript object the code builds: assigning a
  key that is present replaces its value, assigning a new key appends it
  (\<open>AList.update\<close>). \<open>any_status\<close> is \<^verbatim>\<open>validateStatus: () => true\<close>.
\<close>

record http_request =
  verb :: string
  target :: string
  req_headers :: "(string \<times> string) list"
  req_body :: json
  timeout_ms :: int
  any_status :: bool

text \<open>The network: what comes back for a request, a response with its status code or no
  response at all (timeout, DNS failure, refused connection).\<close>

datatype http_reply = Reply int | NoReply string

text \<open>
  \<^verbatim>\<open>axios.post\<close> resolves with the response when \<^verbatim>\<open>validateStatus\<close> accepts the status
  (by default only 2xx) and rejects otherwise, as it does when no response arrives.
  \<open>Inl\<close> is the rejection, \<open>Inr\<close> the status of the response.
\<close>

definition axios_post :: "(http_request \<Rightarrow> http_reply) \<Rightarrow> http_request \<Rightarrow> string + int" where
  "axios_post net req =
     (case net req of
        NoReply m \<Rightarrow> Inl m
      | Reply s \<Rightarrow>
          (if any_status req \<or> (200 \<le> s \<and> s < 300) then Inr s
           else Inl ''Request failed with status code''))"

text \<open>What a function did besides returning: the requests it sent and the lines it
  logged, oldest first.\<close>

record effects =
  sent :: "http_request list"
  logged :: "string list"

definition no_effects :: effects where
  "no_effects = \<lparr> sent = [], logged = [] \<rparr>"

subsection \<open>The inline fallback of the lite manager\<close>

text \<open>
  \<^verbatim>\<open>queueDeliveries(accountId, webhooks, msgData)\<close> of the object
  \<^verbatim>\<open>_getWebhookService\<close> builds when the delivery service cannot be loaded
  (whatsappManager.lite.js): one \<^verbatim>\<open>axios.post\<close> per webhook inside its own try block,
  with \<^verbatim>\<open>timeout: 10000\<close> and \<^verbatim>\<open>headers: webhook.headers || {}\<close>; a rejection is
  logged as a warning and the loop goes on.
\<close>

definition inline_request :: "int \<Rightarrow> string \<Rightarrow> webhook \<Rightarrow> json \<Rightarrow> http_request" where
  "inline_request now accountId wh msgData =
     \<lparr> verb = ''POST'', target = url wh,
       req_headers = (case headers wh of None \<Rightarrow> [] | Some h \<Rightarrow> h),
       req_body = JObject [(''event'', JString ''message''), (''account_id'', JString accountId),
                       (''data'', msgData), (''timestamp'', JTime now)],
       timeout_ms = 10000, any_status = False \<rparr>"

fun inline_loop ::
  "(http_request \<Rightarrow> http_reply) \<Rightarrow> int \<Rightarrow> string \<Rightarrow> json \<Rightarrow> webhook list \<Rightarrow> effects \<Rightarrow> effects" where
  "inline_loop net now accountId msgData [] fx = fx"
| "inline_loop net now accountId msgData (wh # whs) fx =
     inline_loop net now accountId msgData whs
       (case axios_post net (inline_request now accountId wh msgData) of
          Inr s \<Rightarrow> fx\<lparr> sent := sent fx @ [inline_request now accountId wh msgData] \<rparr>
        | Inl err \<Rightarrow> fx\<lparr> sent := sent fx @ [inline_request now accountId wh msgData],
                           logged := logged fx @ [''Webhook failed '' @ url wh @ '': '' @ err] \<rparr>)"

definition queueDeliveries_inline ::
  "(http_request \<Rightarrow> http_reply) \<Rightarrow> int \<Rightarrow> string \<Rightarrow> webhook list \<Rightarrow> json \<Rightarrow> (string + unit) \<times> effects" where
  "queueDeliveries_inline net now accountId webhooks msgData =
     (Inr (), inline_loop net now accountId msgData webhooks no_effects)"

text \<open>
  \<^verbatim>\<open>_getWebhookService()\<close>: the exports of \<^verbatim>\<open>./webhookDeliveryService\<close> decide. A
  function is instantiated, an object with \<^verbatim>\<open>queueDeliveries\<close> is used as it is; when
  loading throws or the exports are neither, the inline fallback is built. The text of
  the delivery service itself is not available: it is the parameter \<open>svc\<close>, any function
  that returns or throws.
\<close>

type_synonym delivery_service = "string \<Rightarrow> webhook list \<Rightarrow> json \<Rightarrow> (string + unit) \<times> effects"

datatype module_exports = LoadThrows | ExportsClass delivery_service
  | ExportsObject delivery_service | ExportsOther

definition getWebhookService ::
  "(http_request \<Rightarrow> http_reply) \<Rightarrow> int \<Rightarrow> module_exports \<Rightarrow> delivery_service" where
  "getWebhookService net now loaded =
     (case loaded of
        ExportsClass svc \<Rightarrow> svc
      | ExportsObject svc \<Rightarrow> svc
      | LoadThrows \<Rightarrow> queueDeliveries_inline net now
      | ExportsOther \<Rightarrow> queueDeliveries_inline net now)"

text \<open>
  \<^verbatim>\<open>_queueWebhooks(accountId, msgData)\<close> of the lite manager and
  \<^verbatim>\<open>queueWebhookDeliveries(accountId, messageData)\<close> of the Baileys manager: read the
  webhooks of the account, keep the active ones, hand them to the service when there is at
  least one; the whole body is one try block whose catch logs. \<open>getWebhooks\<close> is the
  outcome of \<^verbatim>\<open>db.getWebhooks(accountId)\<close>: an exception, null or a list.
\<close>

definition queueWebhookDeliveries ::
  "(string + webhook list option) \<Rightarrow> delivery_service \<Rightarrow> string \<Rightarrow> json \<Rightarrow> (string + unit) \<times> effects" where
  "queueWebhookDeliveries getWebhooks svc accountId messageData =
     (case getWebhooks of
        Inl err \<Rightarrow> (Inr (), no_effects\<lparr> logged := [''Webhook delivery error: '' @ err] \<rparr>)
      | Inr found \<Rightarrow>
          (let activeWebhooks = filter is_active (case found of None \<Rightarrow> [] | Some ws \<Rightarrow> ws)
           in if activeWebhooks = [] then (Inr (), no_effects)
              else (case svc accountId activeWebhooks messageData of
                      (Inr u, fx) \<Rightarrow> (Inr (), fx)
                    | (Inl err, fx) \<Rightarrow>
                        (Inr (), fx\<lparr> logged := logged fx @ [''Webhook delivery error: '' @ err] \<rparr>))))"

definition queueWebhooks ::
  "(http_request \<Rightarrow> http_reply) \<Rightarrow> int \<Rightarrow> module_exports \<Rightarrow> (string + webhook list option)
     \<Rightarrow> string \<Rightarrow> json \<Rightarrow> (string + unit) \<times> effects" where
  "queueWebhooks net now loaded getWebhooks accountId msgData =
     (case getWebhooks of
        Inl err \<Rightarrow> (Inr (), no_effects\<lparr> logged := [''Webhook queue error: '' @ err] \<rparr>)
      | Inr found \<Rightarrow>
          (let active = filter is_active (case found of None \<Rightarrow> [] | Some ws \<Rightarrow> ws)
           in if active = [] then (Inr (), no_effects)
              else (case getWebhookService net now loaded accountId active msgData of
                      (Inr u, fx) \<Rightarrow> (Inr (), fx)
                    | (Inl err, fx) \<Rightarrow>
                        (Inr (), fx\<lparr> logged := logged fx @ [''Webhook queue error: '' @ err] \<rparr>))))"

subsection \<open>The webhook test routes\<close>

text \<open>
  \<^verbatim>\<open>POST /api/accounts/:accountId/webhooks/:webhookId/test\<close> of index.optimized.js:
  headers \<^verbatim>\<open>{ 'Content-Type': 'application/json' }\<close>, plus
  \<^verbatim>\<open>X-Webhook-Secret\<close> when \<^verbatim>\<open>webhook.secret\<close> is truthy; \<^verbatim>\<open>timeout: 10000\<close>,
  \<^verbatim>\<open>validateStatus: () => true\<close>; the answer reports
  \<^verbatim>\<open>success: response.status >= 200 && response.status < 300\<close>. \<open>lookup\<close> is the
  outcome of \<^verbatim>\<open>db.getWebhook\<close>.
\<close>

datatype route_reply = NotFound | Tested bool int | ServerError string

definition with_secret :: "webhook \<Rightarrow> (string \<times> string) list \<Rightarrow> (string \<times> string) list" where
  "with_secret wh hs =
     (case truthy (secret wh) of
        None \<Rightarrow> hs
      | Some s \<Rightarrow> AList.update ''X-Webhook-Secret'' s hs)"

definition test_request :: "int \<Rightarrow> string \<Rightarrow> webhook \<Rightarrow> http_request" where
  "test_request now accountId wh =
     \<lparr> verb = ''POST'', target = url wh,
       req_headers = with_secret wh [(''Content-Type'', ''application/json'')],
       req_body = JObject [(''event'', JString ''test''), (''timestamp'', JTime now),
                       (''account_id'', JString accountId),
                       (''message'', JString ''Test webhook from WhatsApp Gateway'')],
       timeout_ms = 10000, any_status = True \<rparr>"

definition test_route ::
  "(http_request \<Rightarrow> http_reply) \<Rightarrow> int \<Rightarrow> string \<Rightarrow> (string + webhook option)
     \<Rightarrow> route_reply \<times> http_request list" where
  "test_route net now accountId lookup =
     (case lookup of
        Inl err \<Rightarrow> (ServerError err, [])
      | Inr None \<Rightarrow> (NotFound, [])
      | Inr (Some wh) \<Rightarrow>
          (case axios_post net (test_request now accountId wh) of
             Inr s \<Rightarrow> (Tested (200 \<le> s \<and> s < 300) s, [test_request now accountId wh])
           | Inl err \<Rightarrow> (ServerError err, [test_request now accountId wh])))"

text \<open>
  The same route of index.lite.js starts from
  \<^verbatim>\<open>{ 'Content-Type': 'application/json', 'User-Agent': 'WhatsApp-Gateway-Lite/1.0',
  ...(webhook.headers || {}) }\<close>, so the headers configured on the webhook come after
  the two fixed ones and replace them when they carry the same key.
\<close>

definition spread :: "(string \<times> string) list \<Rightarrow> (string \<times> string) list \<Rightarrow> (string \<times> string) list" where
  "spread extra hs = fold (\<lambda>(k, v) acc. AList.update k v acc) extra hs"

definition test_request_lite :: "int \<Rightarrow> string \<Rightarrow> webhook \<Rightarrow> http_request" where
  "test_request_lite now accountId wh =
     \<lparr> verb = ''POST'', target = url wh,
       req_headers =
         with_secret wh
           (spread (case headers wh of None \<Rightarrow> [] | Some h \<Rightarrow> h)
              [(''Content-Type'', ''application/json''),
               (''User-Agent'', ''WhatsApp-Gateway-Lite/1.0'')]),
       req_body = JObject [(''event'', JString ''test''), (''account_id'', JString accountId),
                       (''timestamp'', JTime now),
                       (''message'', JString ''This is a test webhook from WhatsApp Gateway'')],
       timeout_ms = 10000, any_status = True \<rparr>"

definition test_route_lite ::
  "(http_request \<Rightarrow> http_reply) \<Rightarrow> int \<Rightarrow> string \<Rightarrow> (string + webhook option)
     \<Rightarrow> route_reply \<times> http_request list" where
  "test_route_lite net now accountId lookup =
     (case lookup of
        Inl err \<Rightarrow> (ServerError err, [])
      | Inr None \<Rightarrow> (NotFound, [])
      | Inr (Some wh) \<Rightarrow>
          (case axios_post net (test_request_lite now accountId wh) of
             Inr s \<Rightarrow> (Tested (200 \<le> s \<and> s < 300) s, [test_request_lite now accountId wh])
           | Inl err \<Rightarrow> (ServerError err, [test_request_lite now accountId wh])))"


subsection \<open>Sample webhooks and networks\<close>

text \<open>A network on which the first webhook of \<open>two_webhooks\<close> cannot be reached and every
  other request is answered with 200; a webhook whose configured headers carry a
  \<^verbatim>\<open>Content-Type\<close> and an \<^verbatim>\<open>X-Webhook-Secret\<close> of their own.\<close>

definition flaky_net :: "http_request \<Rightarrow> http_reply" where
  "flaky_net req = (if target req = ''https://a.test/hook'' then NoReply ''ECONNREFUSED'' else Reply 200)"

definition two_webhooks :: "webhook list" where
  "two_webhooks =
     [\<lparr> wh_id = ''a'', url = ''https://a.test/hook'', secret = None, headers = None,
        wh_max_retries = Some 5, is_active = True \<rparr>,
      \<lparr> wh_id = ''b'', url = ''https://b.test/hook'', secret = Some ''s3cret'', headers = None,
        wh_max_retries = Some 5, is_active = True \<rparr>]"

definition plain_text_webhook :: webhook where
  "plain_text_webhook =
     \<lparr> wh_id = ''c'', url = ''https://c.test/hook'', secret = None,
       headers = Some [(''Content-Type'', ''text/plain''), (''X-Webhook-Secret'', ''from-headers'')],
       wh_max_retries = Some 5, is_active = True \<rparr>"


subsection \<open>The delivery client and the queue facade\<close>

text \<open>
  Modelled from the spec: the HTTP Delivery Client (section 4.2), part of
  \<^verbatim>\<open>utils/webhookDeliveryService.js\<close>, whose text is not available. One POST with
  \<^verbatim>\<open>Content-Type: application/json\<close>, the raw secret in \<^verbatim>\<open>X-Webhook-Secret\<close> when the
  webhook has one, a timeout of 10 seconds, every status code accepted as a response;
  exactly one attempt per call.
\<close>

definition delivery_request :: "string \<Rightarrow> string option \<Rightarrow> json \<Rightarrow> http_request" where
  "delivery_request u sec content =
     \<lparr> verb = ''POST'', target = u,
       req_headers = (case truthy sec of
                        None \<Rightarrow> [(''Content-Type'', ''application/json'')]
                      | Some s \<Rightarrow> [(''Content-Type'', ''application/json''),
                                   (''X-Webhook-Secret'', s)]),
       req_body = content, timeout_ms = 10000, any_status = True \<rparr>"

definition deliver_once ::
  "(http_request \<Rightarrow> http_reply) \<Rightarrow> string \<Rightarrow> string option \<Rightarrow> json \<Rightarrow> attempt_result" where
  "deliver_once net u sec content =
     (case axios_post net (delivery_request u sec content) of
        Inr s \<Rightarrow> Responded s
      | Inl err \<Rightarrow> NetworkFailure err)"

text \<open>
  Modelled from the spec: \<^verbatim>\<open>queueDeliveries(accountId, activeWebhooks, eventPayload)\<close> of
  the Queue Facade with its fallback (section 4.5), also part of
  \<^verbatim>\<open>utils/webhookDeliveryService.js\<close>. For each webhook it calls the store's
  \<^verbatim>\<open>enqueue\<close> (the function of database.js above); when that raises the signal of the
  missing table it remembers, for the rest of the process, that the queue is unavailable
  and attempts one direct POST for the webhook, with no retry and no record; a failed
  direct attempt and any other error of enqueue are logged and dropped. The state is the
  remembered flag, the database and the effects so far. It never throws.
\<close>

definition direct_attempt ::
  "(http_request \<Rightarrow> http_reply) \<Rightarrow> json \<Rightarrow> webhook \<Rightarrow> effects \<Rightarrow> effects" where
  "direct_attempt net content wh fx =
     (if succeeded (deliver_once net (url wh) (secret wh) content)
      then fx\<lparr> sent := sent fx @ [delivery_request (url wh) (secret wh) content] \<rparr>
      else fx\<lparr> sent := sent fx @ [delivery_request (url wh) (secret wh) content],
               logged := logged fx
                 @ [failure_text (deliver_once net (url wh) (secret wh) content)] \<rparr>)"

fun facade_loop ::
  "(http_request \<Rightarrow> http_reply) \<Rightarrow> int \<Rightarrow> string \<Rightarrow> json \<Rightarrow> webhook list
     \<Rightarrow> bool \<times> delivery queue_db \<times> effects \<Rightarrow> bool \<times> delivery queue_db \<times> effects" where
  "facade_loop net now accountId content [] st = st"
| "facade_loop net now accountId content (wh # whs) (unavailable, db, fx) =
     facade_loop net now accountId content whs
       (if unavailable then (True, db, direct_attempt net content wh fx)
        else (case enqueueWebhookDelivery now accountId wh content (wh_max_retries wh) db of
                (Inr queued, db') \<Rightarrow> (False, db', fx)
              | (Inl MissingWebhookQueueTableError, db') \<Rightarrow>
                  (True, db', direct_attempt net content wh fx)
              | (Inl (PgFailure e), db') \<Rightarrow>
                  (False, db', fx\<lparr> logged := logged fx @ [message e] \<rparr>)))"

definition queueDeliveries ::
  "(http_request \<Rightarrow> http_reply) \<Rightarrow> int \<Rightarrow> string \<Rightarrow> webhook list \<Rightarrow> json
     \<Rightarrow> bool \<times> delivery queue_db \<Rightarrow> (string + unit) \<times> bool \<times> delivery queue_db \<times> effects" where
  "queueDeliveries net now accountId activeWebhooks eventPayload st =
     (Inr (), facade_loop net now accountId eventPayload activeWebhooks
                (fst st, snd st, no_effects))"


section \<open>Verified properties\<close>

subsection \<open>Due deliveries\<close>

lemma sorted_take_sort_key:
  "sorted (map f (take n (sort_key f xs)))"
  by (simp add: take_map [symmetric] sorted_wrt_take)

lemma is_due_key: "is_due now r \<Longrightarrow> next_attempt_at r = Some (attempt_key r) \<and> attempt_key r \<le> now"
  by (auto simp: is_due_def attempt_key_def split: option.splits)

lemma in_take_sort_filter:
  "r \<in> set (take n (sort_key f (filter P xs))) \<Longrightarrow> r \<in> set xs \<and> P r"
  by (auto dest: in_set_takeD)



lemma due_result:
  "fault db = None \<Longrightarrow>
   getDueWebhookDeliveries now limit db =
     Inr (take limit (sort_key attempt_key (filter (is_due now) (rows db))))"
  by (simp add: getDueWebhookDeliveries_def)

lemma due_props:
  assumes "rs = take limit (sort_key attempt_key (filter (is_due now) xs))"
  shows "set rs \<subseteq> set xs \<and>
         (\<forall>r \<in> set rs. (status r = Pending \<or> status r = Failed) \<and>
                        next_attempt_at r = Some (attempt_key r) \<and> attempt_key r \<le> now) \<and>
         sorted (map attempt_key rs) \<and> length rs \<le> limit"
proof (intro conjI ballI subsetI)
  fix r assume "r \<in> set rs"
  then have m: "r \<in> set xs \<and> is_due now r"
    unfolding assms by (rule in_take_sort_filter)
  show "r \<in> set xs" using m by simp
  show "status r = Pending \<or> status r = Failed" using m by (simp add: is_due_def)
  show "next_attempt_at r = Some (attempt_key r)" using m is_due_key [of now r] by simp
  show "attempt_key r \<le> now" using m is_due_key [of now r] by simp
next
  show "sorted (map attempt_key rs)" unfolding assms by (rule sorted_take_sort_key)
  show "length rs \<le> limit" unfolding assms by simp
qed

text \<open>
  Claim C4. For every limit, every clock reading and every state of the durable store,
  \<^verbatim>\<open>getDueWebhookDeliveries\<close> returns normally; every returned row is a row of the table
  with status pending or failed and \<^verbatim>\<open>next_attempt_at <= now\<close> (so never one with status
  success, processing or dead_letter), the result is ordered by \<^verbatim>\<open>next_attempt_at\<close>
  ascending and holds at most \<open>limit\<close> rows.
\<close>

theorem C4_due_records:
  "\<exists>rs. getDueWebhookDeliveries now limit db = Inr rs \<and>
         set rs \<subseteq> set (rows db) \<and>
         (\<forall>r \<in> set rs. (status r = Pending \<or> status r = Failed) \<and>
                        next_attempt_at r = Some (attempt_key r) \<and> attempt_key r \<le> now) \<and>
         sorted (map attempt_key rs) \<and> length rs \<le> limit"
proof (cases "fault db")
  case None
  show ?thesis
    by (rule exI [of _ "take limit (sort_key attempt_key (filter (is_due now) (rows db)))"],
        rule conjI, rule due_result [OF None], rule due_props, rule refl)
next
  case (Some e)
  then show ?thesis by (simp add: getDueWebhookDeliveries_def)
qed

lemma due_eval: "getDueWebhookDeliveries 100 1 due_db = Inr [example_row\<lparr> job_id := 2, next_attempt_at := Some 20 \<rparr>]"
  by (simp add: getDueWebhookDeliveries_def due_db_def example_row_def is_due_def attempt_key_def)

theorem C4_due_records_witness:
  "getDueWebhookDeliveries 100 1 due_db = Inr [fresh_row] \<and>
   fresh_row \<in> set (rows due_db) \<and> status fresh_row = Pending \<and>
   next_attempt_at fresh_row = Some 20 \<and> attempt_key fresh_row \<le> 100 \<and>
   length [fresh_row] \<le> (1 :: nat)"
proof -
  note inst = C4_due_records [of 100 1 due_db]
  have e: "getDueWebhookDeliveries 100 1 due_db = Inr [fresh_row]"
    using due_eval by (simp add: fresh_row_def)
  from inst e have
    "set [fresh_row] \<subseteq> set (rows due_db) \<and>
     (\<forall>r \<in> set [fresh_row]. (status r = Pending \<or> status r = Failed) \<and>
                        next_attempt_at r = Some (attempt_key r) \<and> attempt_key r \<le> 100) \<and>
     sorted (map attempt_key [fresh_row]) \<and> length [fresh_row] \<le> (1 :: nat)"
    by auto
  then have "fresh_row \<in> set (rows due_db) \<and>
     next_attempt_at fresh_row = Some (attempt_key fresh_row) \<and> attempt_key fresh_row \<le> 100"
    by simp
  moreover have "status fresh_row = Pending \<and> attempt_key fresh_row = 20"
    by (simp add: fresh_row_def example_row_def attempt_key_def)
  ultimately show ?thesis using e by simp
qed


subsection \<open>Recovery of stuck deliveries\<close>

lemma missing_table_recognised: "isWebhookQueueMissingError missing_table"
  by (simp add: isWebhookQueueMissingError_def missing_table_def lower_char_def)

text \<open>
  Claim C3, as amended. On a healthy backend \<^verbatim>\<open>resetStuckWebhookDeliveries(minutes)\<close> of
  the durable store returns normally and changes exactly the rows with status processing
  whose \<^verbatim>\<open>updated_at\<close> is at or before \<^verbatim>\<open>now - minutes * 60000\<close>: each becomes failed
  with \<^verbatim>\<open>next_attempt_at = now\<close>, so it is due and can be claimed again; every other row
  (a younger processing row, a row of any other status) is left as it is. The reduced
  store takes no threshold and turns every processing row into a pending one.
\<close>

theorem C3_reset_stuck:
  "(fault db = None \<longrightarrow>
      fst (resetStuckWebhookDeliveries now minutes db) = Inr () \<and>
      fault (snd (resetStuckWebhookDeliveries now minutes db)) = None \<and>
      list_all2
        (\<lambda>r r'. if status r = Processing \<and> updated_at r \<le> now - minutes * 60000
                then r' = r\<lparr> status := Failed, next_attempt_at := Some now,
                             last_error := Some ''Recovered from unexpected shutdown'',
                             updated_at := now \<rparr> \<and>
                     is_due now r' \<and> claimable r' r'
                else r' = r)
        (rows db) (rows (snd (resetStuckWebhookDeliveries now minutes db)))) \<and>
   (fault ldb = None \<longrightarrow>
      list_all2
        (\<lambda>r r'. if status r = Processing
                then r' = r\<lparr> status := Pending, updated_at := now' \<rparr>
                else r' = r)
        (rows ldb) (rows (snd (resetStuckWebhookDeliveries_lite now' ldb))))"
  by (simp add: resetStuckWebhookDeliveries_def resetStuckWebhookDeliveries_lite_def
        list_all2_map2 list_all2_same stuck_def recovered_def is_due_def claimable_def)

text \<open>
  The claim as stated fails at the boundary and on the reduced store. At 1000000 with a
  threshold of five minutes the first row is exactly five minutes old, not older, and is
  reset all the same; the reduced store resets a row that was claimed a millisecond ago,
  and resets it to pending.
\<close>

theorem C3_boundary_counterexample:
  "(1000000 :: int) - 700000 = 5 * 60000 \<and>
   map status (rows stuck_db) = [Processing, Processing, Processing, Pending] \<and>
   map updated_at (rows stuck_db) = [700000, 700001, 100, 100] \<and>
   map status (rows (snd (resetStuckWebhookDeliveries 1000000 5 stuck_db)))
     = [Failed, Processing, Failed, Pending] \<and>
   map status (rows stuck_db_lite) = [Processing, Failed] \<and>
   map updated_at (rows stuck_db_lite) = [999999, 100] \<and>
   map status (rows (snd (resetStuckWebhookDeliveries_lite 1000000 stuck_db_lite)))
     = [Pending, Failed]"
  by (simp add: resetStuckWebhookDeliveries_def resetStuckWebhookDeliveries_lite_def
        stuck_db_def stuck_db_lite_def stuck_def recovered_def example_row_def example_row_lite_def)

theorem C3_reset_stuck_witness:
  "fst (resetStuckWebhookDeliveries 1000000 5 stuck_db) = Inr () \<and>
   length (rows (snd (resetStuckWebhookDeliveries 1000000 5 stuck_db))) = 4 \<and>
   length (rows (snd (resetStuckWebhookDeliveries_lite 1000000 stuck_db_lite))) = 2"
proof -
  note inst = C3_reset_stuck [of stuck_db 1000000 5 stuck_db_lite 1000000]
  have f: "fault stuck_db = None" "fault stuck_db_lite = None"
    by (simp_all add: stuck_db_def stuck_db_lite_def)
  from inst f have a: "fst (resetStuckWebhookDeliveries 1000000 5 stuck_db) = Inr ()"
    and b: "list_all2
        (\<lambda>r r'. if status r = Processing \<and> updated_at r \<le> 1000000 - 5 * 60000
                then r' = r\<lparr> status := Failed, next_attempt_at := Some 1000000,
                             last_error := Some ''Recovered from unexpected shutdown'',
                             updated_at := 1000000 \<rparr> \<and>
                     is_due 1000000 r' \<and> claimable r' r'
                else r' = r)
        (rows stuck_db) (rows (snd (resetStuckWebhookDeliveries 1000000 5 stuck_db)))"
    and c: "list_all2
        (\<lambda>r r'. if status r = Processing
                then r' = r\<lparr> status := Pending, updated_at := 1000000 \<rparr>
                else r' = r)
        (rows stuck_db_lite) (rows (snd (resetStuckWebhookDeliveries_lite 1000000 stuck_db_lite)))"
    by blast+
  from b have "length (rows (snd (resetStuckWebhookDeliveries 1000000 5 stuck_db))) = length (rows stuck_db)"
    by (simp add: list_all2_lengthD)
  moreover from c have "length (rows (snd (resetStuckWebhookDeliveries_lite 1000000 stuck_db_lite))) = length (rows stuck_db_lite)"
    by (simp add: list_all2_lengthD)
  ultimately show ?thesis using a by (simp add: stuck_db_def stuck_db_lite_def)
qed


subsection \<open>The missing table\<close>

text \<open>
  Claim C5, as amended. While the backend answers every query with the error of the
  missing table, \<^verbatim>\<open>enqueueWebhookDelivery\<close>, \<^verbatim>\<open>resetStuckWebhookDeliveries\<close> and
  \<^verbatim>\<open>getWebhookQueueStats\<close> of the durable store throw
  \<^verbatim>\<open>MissingWebhookQueueTableError\<close>; \<^verbatim>\<open>getDueWebhookDeliveries\<close>,
  \<^verbatim>\<open>markWebhookDeliveryProcessing\<close>, \<^verbatim>\<open>completeWebhookDelivery\<close> and
  \<^verbatim>\<open>failWebhookDelivery\<close> log it and return the empty list, null, false and false.
  No row changes.
\<close>

theorem C5_missing_table:
  assumes "fault db = Some e" and "isWebhookQueueMissingError e"
  shows "enqueueWebhookDelivery now accountId wh body maxRetries db
           = (Inl MissingWebhookQueueTableError, db) \<and>
         resetStuckWebhookDeliveries now minutes db = (Inl MissingWebhookQueueTableError, db) \<and>
         getWebhookQueueStats db = Inl MissingWebhookQueueTableError \<and>
         getDueWebhookDeliveries now limit db = Inr [] \<and>
         markWebhookDeliveryProcessing now job db = (Inr None, db) \<and>
         completeWebhookDelivery now jobId responseStatus db = (Inr False, db) \<and>
         failWebhookDelivery now job errorMessage nextAt isDeadLetter db = (Inr False, db)"
  using assms
  by (simp add: enqueueWebhookDelivery_def resetStuckWebhookDeliveries_def
        getWebhookQueueStats_def getDueWebhookDeliveries_def markWebhookDeliveryProcessing_def
        completeWebhookDelivery_def failWebhookDelivery_def raise_for_def)

text \<open>
  The claim as stated fails for the four functions whose catch block returns a default:
  with the table missing they return normally.
\<close>

theorem C5_swallowed_counterexample:
  "isWebhookQueueMissingError missing_table \<and>
   fault missing_db = Some missing_table \<and>
   getDueWebhookDeliveries 0 10 missing_db = Inr [] \<and>
   fst (markWebhookDeliveryProcessing 0 example_row missing_db) = Inr None \<and>
   fst (completeWebhookDelivery 0 1 200 missing_db) = Inr False \<and>
   fst (failWebhookDelivery 0 example_row ''HTTP 500'' (Some 30000) False missing_db) = Inr False"
  using missing_table_recognised
  by (simp add: missing_db_def getDueWebhookDeliveries_def markWebhookDeliveryProcessing_def
        completeWebhookDelivery_def failWebhookDelivery_def)

theorem C5_missing_table_witness:
  "fst (enqueueWebhookDelivery 0 ''acct'' example_webhook (JObject []) (Some 3) missing_db)
     = Inl MissingWebhookQueueTableError \<and>
   fst (resetStuckWebhookDeliveries 0 5 missing_db) = Inl MissingWebhookQueueTableError \<and>
   getWebhookQueueStats missing_db = Inl MissingWebhookQueueTableError \<and>
   getDueWebhookDeliveries 0 10 missing_db = Inr []"
proof -
  have f: "fault missing_db = Some missing_table" by (simp add: missing_db_def)
  show ?thesis
    using C5_missing_table [OF f missing_table_recognised, of 0 "''acct''" example_webhook "JObject []" "Some 3" 5 10]
    by simp
qed


subsection \<open>Claiming a delivery\<close>

lemma same_id_same_row:
  "distinct (map job_id xs) \<Longrightarrow> x \<in> set xs \<Longrightarrow> y \<in> set xs \<Longrightarrow> job_id y = job_id x \<Longrightarrow> y = x"
  by (meson distinct_map inj_on_def)

lemma filter_none: "(\<forall>x \<in> set xs. \<not> P x) \<Longrightarrow> filter P xs = []"
  by (induction xs) auto


lemma filter_the_row:
  assumes "distinct (map job_id xs)" and "x \<in> set xs"
    and "\<And>y. P y \<Longrightarrow> job_id y = job_id x" and "P x"
  shows "filter P xs = [x]"
  using assms(1,2)
proof (induction xs)
  case Nil
  then show ?case by simp
next
  case (Cons a xs)
  show ?case
  proof (cases "a = x")
    case True
    have "\<forall>y \<in> set xs. \<not> P y"
    proof
      fix y assume y: "y \<in> set xs"
      show "\<not> P y"
      proof
        assume "P y"
        then have "job_id y = job_id a" using assms(3) True by simp
        moreover have "job_id y \<in> job_id ` set xs" using y by (rule imageI)
        ultimately have "job_id a \<in> set (map job_id xs)" by simp
        then show False using Cons.prems(1) by simp
      qed
    qed
    then have "filter P xs = []" by (rule filter_none)
    then show ?thesis using True assms(4) by simp
  next
    case False
    then have x: "x \<in> set xs" using Cons.prems(2) by simp
    have "\<not> P a"
    proof
      assume "P a"
      then have "job_id a = job_id x" using assms(3) by simp
      moreover have "job_id x \<in> job_id ` set xs" using x by (rule imageI)
      ultimately have "job_id a \<in> set (map job_id xs)" by simp
      then show False using Cons.prems(1) by simp
    qed
    moreover have "filter P xs = [x]" using Cons.IH Cons.prems(1) x by simp
    ultimately show ?thesis by simp
  qed
qed

lemma map_the_row:
  assumes "distinct (map job_id xs)" and "x \<in> set xs"
    and "\<And>y. P y \<Longrightarrow> job_id y = job_id x" and "P x"
  shows "map (\<lambda>r. if P r then f r else r) xs = map (\<lambda>r. if job_id r = job_id x then f x else r) xs"
proof (rule map_cong [OF refl])
  fix r assume r: "r \<in> set xs"
  show "(if P r then f r else r) = (if job_id r = job_id x then f x else r)"
  proof (cases "job_id r = job_id x")
    case True
    then have "r = x" using same_id_same_row [OF assms(1,2) r] by simp
    then show ?thesis using assms(4) by simp
  next
    case False
    then have "\<not> P r" using assms(3) by blast
    then show ?thesis using False by simp
  qed
qed

lemma mark_wins:
  assumes "fault db = None" and "distinct (map job_id (rows db))" and "job \<in> set (rows db)"
    and "status job = Pending \<or> status job = Failed"
  shows "markWebhookDeliveryProcessing t job db =
           (Inr (Some (claimed t job job)),
            db\<lparr>rows := map (\<lambda>r. if job_id r = job_id job then claimed t job job else r) (rows db)\<rparr>)"
proof -
  have c: "claimable job job" using assms(4) by (simp add: claimable_def)
  have i: "\<And>y. claimable job y \<Longrightarrow> job_id y = job_id job" by (simp add: claimable_def)
  have "filter (claimable job) (rows db) = [job]"
    by (rule filter_the_row [of "rows db" job "claimable job", OF assms(2,3) i c])
  moreover have "map (\<lambda>r. if claimable job r then claimed t job r else r) (rows db)
      = map (\<lambda>r. if job_id r = job_id job then claimed t job job else r) (rows db)"
    by (rule map_the_row [of "rows db" job "claimable job", OF assms(2,3) i c])
  ultimately show ?thesis
    using assms(1) by (simp add: markWebhookDeliveryProcessing_def first_row_def)
qed









subsection \<open>The attempt counter\<close>

lemma grows_refl: "grows cnt xs xs"
  by (simp add: grows_def)

lemma grows_trans: "grows cnt xs ys \<Longrightarrow> grows cnt ys zs \<Longrightarrow> grows cnt xs zs"
  unfolding grows_def by (metis (no_types, lifting) le_trans less_le_trans order_trans)

lemma grows_map:
  assumes "\<And>r. r \<in> set xs \<Longrightarrow> job_id (f r) = job_id r \<and> cnt r \<le> cnt (f r)"
  shows "grows cnt xs (map f xs)"
  using assms by (simp add: grows_def)

lemma grows_snoc: "grows cnt xs (xs @ ys)"
  by (simp add: grows_def nth_append)

lemma ids_map:
  assumes "\<And>r. r \<in> set xs \<Longrightarrow> job_id (f r) = job_id r" and "distinct (map job_id xs)"
  shows "distinct (map job_id (map f xs))"
proof -
  have "map job_id (map f xs) = map job_id xs" using assms(1) by simp
  then show ?thesis using assms(2) by (simp only:)
qed

lemma id_below_fresh: "r \<in> set xs \<Longrightarrow> job_id r < fresh_id xs"
  unfolding fresh_id_def by (induction xs) auto

lemma ids_snoc:
  assumes "distinct (map job_id xs)" and "job_id r = fresh_id xs"
  shows "distinct (map job_id (xs @ [r]))"
proof -
  have "job_id r \<notin> job_id ` set xs"
    using id_below_fresh [of _ xs] assms(2) by fastforce
  then show ?thesis using assms(1) by simp
qed

lemma find_row: "find (\<lambda>r. job_id r = i) xs = Some job \<Longrightarrow> job \<in> set xs \<and> job_id job = i"
  by (induction xs) (auto split: if_splits)

lemma claim_current_grows:
  assumes d: "distinct (map job_id xs)" and j: "job \<in> set xs"
  shows "grows attempt_count xs (map (\<lambda>r. if claimable job r then claimed now job r else r) xs)"
proof (rule grows_map)
  fix r assume r: "r \<in> set xs"
  show "job_id (if claimable job r then claimed now job r else r) = job_id r \<and>
        attempt_count r \<le> attempt_count (if claimable job r then claimed now job r else r)"
  proof (cases "claimable job r")
    case True
    then have "job_id r = job_id job" by (simp add: claimable_def)
    then have "r = job" using same_id_same_row [OF d j r] by simp
    then show ?thesis using True by (simp add: claimed_def)
  next
    case False
    then show ?thesis by simp
  qed
qed

lemma enqueue_rows:
  assumes "fault db = None"
  shows "\<exists>r. job_id r = fresh_id (rows db) \<and>
             rows (snd (enqueueWebhookDelivery now accountId wh body maxRetries db)) = rows db @ [r]"
  using assms by (simp add: enqueueWebhookDelivery_def Let_def)

lemma apply_op_grows:
  assumes d: "distinct (map job_id (rows db))" and c: "from_current_copy oper"
  shows "grows attempt_count (rows db) (rows (apply_op now oper db)) \<and>
         distinct (map job_id (rows (apply_op now oper db)))"
proof (cases "fault db")
  case (Some e)
  have "rows (apply_op now oper db) = rows db"
    using Some
    by (cases oper)
       (simp_all add: enqueueWebhookDelivery_def markWebhookDeliveryProcessing_def
          completeWebhookDelivery_def failWebhookDelivery_def resetStuckWebhookDeliveries_def
          split: option.splits)
  then show ?thesis using d by (simp only: grows_refl simp_thms)
next
  case None
  show ?thesis
  proof (cases oper)
    case (Enqueue accountId wh body maxRetries)
    obtain r where r: "job_id r = fresh_id (rows db)"
        "rows (snd (enqueueWebhookDelivery now accountId wh body maxRetries db)) = rows db @ [r]"
      using enqueue_rows [OF None] by blast
    have e: "rows (apply_op now oper db) = rows db @ [r]" using Enqueue r(2) by simp
    have "distinct (map job_id (rows db @ [r]))" by (rule ids_snoc [OF d r(1)])
    then show ?thesis unfolding e using grows_snoc by blast
  next
    case (Claim i)
    show ?thesis
    proof (cases "find (\<lambda>r. job_id r = i) (rows db)")
      case None
      then have "rows (apply_op now oper db) = rows db" using Claim by simp
      then show ?thesis using d by (simp only: grows_refl simp_thms)
    next
      case (Some job)
      then have j: "job \<in> set (rows db)" using find_row by blast
      let ?f = "\<lambda>r. if claimable job r then claimed now job r else r"
      have e: "rows (apply_op now oper db) = map ?f (rows db)"
        using \<open>fault db = None\<close> Some Claim by (simp add: markWebhookDeliveryProcessing_def)
      have g: "grows attempt_count (rows db) (map ?f (rows db))"
        by (rule claim_current_grows [OF d j])
      have k: "distinct (map job_id (map ?f (rows db)))"
        by (rule ids_map [OF _ d]) (simp add: claimed_def)
      show ?thesis unfolding e using g k by (rule conjI)
    qed
  next
    case (ClaimSnapshot job)
    then show ?thesis using c by simp
  next
    case (Complete i responseStatus)
    let ?f = "\<lambda>r. if job_id r = i
                then r\<lparr> status := Success, response_status := Some responseStatus,
                        last_error := None, updated_at := now \<rparr>
                else r"
    have e: "rows (apply_op now oper db) = map ?f (rows db)"
      using None Complete by (simp add: completeWebhookDelivery_def)
    have g: "grows attempt_count (rows db) (map ?f (rows db))" by (rule grows_map) simp
    have k: "distinct (map job_id (map ?f (rows db)))" by (rule ids_map [OF _ d]) simp
    show ?thesis unfolding e using g k by (rule conjI)
  next
    case (Fail job errorMessage nextAt isDeadLetter)
    let ?f = "\<lambda>r. if job_id r = job_id job
                then r\<lparr> status := (if isDeadLetter then Dead_letter else Failed),
                        last_error := Some errorMessage,
                        next_attempt_at := nextAt, updated_at := now \<rparr>
                else r"
    have e: "rows (apply_op now oper db) = map ?f (rows db)"
      using None Fail by (simp add: failWebhookDelivery_def)
    have g: "grows attempt_count (rows db) (map ?f (rows db))" by (rule grows_map) simp
    have k: "distinct (map job_id (map ?f (rows db)))" by (rule ids_map [OF _ d]) simp
    show ?thesis unfolding e using g k by (rule conjI)
  next
    case (ResetStuck minutes)
    let ?f = "\<lambda>r. if stuck now minutes r then recovered now r else r"
    have e: "rows (apply_op now oper db) = map ?f (rows db)"
      using None ResetStuck by (simp add: resetStuckWebhookDeliveries_def)
    have g: "grows attempt_count (rows db) (map ?f (rows db))"
      by (rule grows_map) (simp add: recovered_def)
    have k: "distinct (map job_id (map ?f (rows db)))"
      by (rule ids_map [OF _ d]) (simp add: recovered_def)
    show ?thesis unfolding e using g k by (rule conjI)
  next
    case (Backend f)
    then have "rows (apply_op now oper db) = rows db" by simp
    then show ?thesis using d by (simp only: grows_refl simp_thms)
  qed
qed

lemma run_ops_grows:
  "distinct (map job_id (rows db)) \<Longrightarrow> list_all (\<lambda>(now, oper). from_current_copy oper) ops \<Longrightarrow>
   grows attempt_count (rows db) (rows (run_ops ops db))"
proof (induction ops arbitrary: db)
  case Nil
  then show ?case by (simp add: grows_refl)
next
  case (Cons a ops)
  obtain now oper where a: "a = (now, oper)" by (cases a)
  have c: "from_current_copy oper" using Cons.prems(2) a by simp
  have s: "grows attempt_count (rows db) (rows (apply_op now oper db)) \<and>
         distinct (map job_id (rows (apply_op now oper db)))"
    by (rule apply_op_grows [OF Cons.prems(1) c])
  have "grows attempt_count (rows (apply_op now oper db)) (rows (run_ops ops (apply_op now oper db)))"
    using Cons.IH [of "apply_op now oper db"] s Cons.prems(2) by simp
  then show ?case using s a grows_trans by (metis run_ops.simps(2))
qed


lemma claim_lite_counts:
  "map attempts (rows (snd (markWebhookDeliveryProcessing_lite t job db))) = map attempts (rows db)"
  by (cases "fault db") (simp_all add: markWebhookDeliveryProcessing_lite_def claimed_lite_def)


text \<open>
  Claim C6, as amended. In the durable store, over every history of enqueue, claim,
  complete, fail and resetStuck calls (and backend failures) in which each claim is issued
  from a copy of the row as stored, on a table with unique ids, every row keeps its place
  and id and its \<^verbatim>\<open>attempt_count\<close> never decreases, and every claim issued from the stored
  copy of a pending or failed row succeeds and raises the stored count by exactly one. A
  claim of the reduced store changes no counter.
\<close>

theorem C6_attempts_monotone:
  "(distinct (map job_id (rows db)) \<and> list_all (\<lambda>(now, oper). from_current_copy oper) ops \<longrightarrow>
      length (rows db) \<le> length (rows (run_ops ops db)) \<and>
      (\<forall>i < length (rows db).
          job_id (rows (run_ops ops db) ! i) = job_id (rows db ! i) \<and>
          attempt_count (rows db ! i) \<le> attempt_count (rows (run_ops ops db) ! i))) \<and>
   (fault db = None \<and> distinct (map job_id (rows db)) \<and> job \<in> set (rows db) \<and>
    (status job = Pending \<or> status job = Failed) \<longrightarrow>
      fst (markWebhookDeliveryProcessing t job db) = Inr (Some (claimed t job job)) \<and>
      map attempt_count (rows (snd (markWebhookDeliveryProcessing t job db)))
        = map (\<lambda>x. if job_id x = job_id job then attempt_count x + 1 else attempt_count x)
            (rows db)) \<and>
   map attempts (rows (snd (markWebhookDeliveryProcessing_lite t lj ldb))) = map attempts (rows ldb)"
proof (intro conjI impI)
  assume "distinct (map job_id (rows db)) \<and> list_all (\<lambda>(now, oper). from_current_copy oper) ops"
  then have g: "grows attempt_count (rows db) (rows (run_ops ops db))"
    using run_ops_grows by blast
  show "length (rows db) \<le> length (rows (run_ops ops db))"
    using g by (simp add: grows_def)
  show "\<forall>i < length (rows db).
          job_id (rows (run_ops ops db) ! i) = job_id (rows db ! i) \<and>
          attempt_count (rows db ! i) \<le> attempt_count (rows (run_ops ops db) ! i)"
    using g by (simp add: grows_def)
next
  assume a: "fault db = None \<and> distinct (map job_id (rows db)) \<and> job \<in> set (rows db) \<and>
    (status job = Pending \<or> status job = Failed)"
  then have w: "markWebhookDeliveryProcessing t job db =
           (Inr (Some (claimed t job job)),
            db\<lparr>rows := map (\<lambda>r. if job_id r = job_id job then claimed t job job else r) (rows db)\<rparr>)"
    using mark_wins by blast
  show "fst (markWebhookDeliveryProcessing t job db) = Inr (Some (claimed t job job))"
    by (simp add: w)
  have "\<And>x. x \<in> set (rows db) \<Longrightarrow> job_id x = job_id job \<Longrightarrow> attempt_count x = attempt_count job"
    using a same_id_same_row [of "rows db" job] by blast
  then show "map attempt_count (rows (snd (markWebhookDeliveryProcessing t job db)))
        = map (\<lambda>x. if job_id x = job_id job then attempt_count x + 1 else attempt_count x)
            (rows db)"
    by (simp add: w claimed_def)
next
  show "map attempts (rows (snd (markWebhookDeliveryProcessing_lite t lj ldb))) = map attempts (rows ldb)"
    by (rule claim_lite_counts)
qed

lemma run_ops_append: "run_ops (xs @ ys) db = run_ops ys (run_ops xs db)"
  by (induction xs arbitrary: db) auto

lemma two_failures_run:
  "run_ops two_failures empty_db =
     \<lparr> fault = None,
       rows = [queued_row\<lparr> status := Failed, attempt_count := 2, last_error := Some ''HTTP 500'',
                           next_attempt_at := Some 100001, updated_at := 40001 \<rparr>] \<rparr>"
  by (simp add: two_failures_def retries_def empty_db_def queued_row_def example_webhook_def
        enqueueWebhookDelivery_def markWebhookDeliveryProcessing_def failWebhookDelivery_def
        fresh_id_def truthy_def claimable_def claimed_def first_row_def Let_def)

lemma queued_db_run: "run_ops two_failures empty_db = run_ops retries queued_db"
  by (simp add: two_failures_def empty_db_def queued_db_def queued_row_def example_webhook_def
        enqueueWebhookDelivery_def fresh_id_def truthy_def Let_def)

text \<open>
  The claim as stated fails in both stores. In the reduced store a successful claim of a
  pending row leaves \<^verbatim>\<open>attempts\<close> at 0. In the durable store a row is enqueued and read
  (count 0); it is then claimed and failed twice, which brings the stored count to 2; a
  claim from the copy read at the start succeeds, since the row is in status failed, and
  writes 0 + 1: the stored count falls from 2 to 1.
\<close>

theorem C6_stale_copy_counterexample:
  "fst (markWebhookDeliveryProcessing_lite 5 example_row_lite single_db_lite)
     = Inr (Some (example_row_lite\<lparr> status := Processing, updated_at := 5 \<rparr>)) \<and>
   map attempts (rows single_db_lite) = [0] \<and>
   map attempts (rows (snd (markWebhookDeliveryProcessing_lite 5 example_row_lite single_db_lite)))
     = [0] \<and>
   fst (enqueueWebhookDelivery 0 ''acct'' example_webhook (JObject []) (Some 5) empty_db)
     = Inr (Some queued_row) \<and>
   map attempt_count (rows (run_ops two_failures empty_db)) = [2] \<and>
   fst (markWebhookDeliveryProcessing 100002 queued_row (run_ops two_failures empty_db))
     = Inr (Some (queued_row\<lparr> status := Processing, attempt_count := 1, last_error := None,
                             next_attempt_at := Some 100001, updated_at := 100002 \<rparr>)) \<and>
   map attempt_count
     (rows (run_ops (two_failures @ [(100002, ClaimSnapshot queued_row)]) empty_db)) = [1]"
proof -
  have a: "fst (enqueueWebhookDelivery 0 ''acct'' example_webhook (JObject []) (Some 5) empty_db)
     = Inr (Some queued_row)"
    by (simp add: enqueueWebhookDelivery_def empty_db_def queued_row_def example_webhook_def
          fresh_id_def truthy_def Let_def)
  have r: "run_ops (two_failures @ [(100002, ClaimSnapshot queued_row)]) empty_db
        = snd (markWebhookDeliveryProcessing 100002 queued_row (run_ops two_failures empty_db))"
    by (simp add: run_ops_append)
  have c: "markWebhookDeliveryProcessing 100002 queued_row (run_ops two_failures empty_db)
     = (Inr (Some (queued_row\<lparr> status := Processing, attempt_count := 1, last_error := None,
                             next_attempt_at := Some 100001, updated_at := 100002 \<rparr>)),
        \<lparr> fault = None,
          rows = [queued_row\<lparr> status := Processing, attempt_count := 1, last_error := None,
                             next_attempt_at := Some 100001, updated_at := 100002 \<rparr>] \<rparr>)"
    unfolding two_failures_run
    by (simp add: markWebhookDeliveryProcessing_def queued_row_def claimable_def claimed_def
          first_row_def)
  have l: "markWebhookDeliveryProcessing_lite 5 example_row_lite single_db_lite
     = (Inr (Some (example_row_lite\<lparr> status := Processing, updated_at := 5 \<rparr>)),
        \<lparr> fault = None, rows = [example_row_lite\<lparr> status := Processing, updated_at := 5 \<rparr>] \<rparr>)"
    by (simp add: markWebhookDeliveryProcessing_lite_def single_db_lite_def example_row_lite_def
          claimable_lite_def claimed_lite_def first_row_def)
  have m: "map attempts (rows single_db_lite) = [0]"
    by (simp add: single_db_lite_def example_row_lite_def)
  show ?thesis unfolding r c l by (simp add: a m two_failures_run example_row_lite_def)
qed

theorem C6_attempts_monotone_witness:
  "attempt_count (rows queued_db ! 0) \<le> attempt_count (rows (run_ops retries queued_db) ! 0) \<and>
   attempt_count (rows (run_ops retries queued_db) ! 0) = 2 \<and>
   map attempt_count (rows (snd (markWebhookDeliveryProcessing 100 fresh_row due_db)))
     = [1, 1, 0, 0] \<and>
   map attempts (rows (snd (markWebhookDeliveryProcessing_lite 100 fresh_row_lite due_db_lite)))
     = [1, 0]"
proof -
  note inst = C6_attempts_monotone [of queued_db retries fresh_row 100 fresh_row_lite due_db_lite]
  note step = C6_attempts_monotone [of due_db "[]" fresh_row 100 fresh_row_lite due_db_lite]
  have h: "distinct (map job_id (rows queued_db)) \<and>
           list_all (\<lambda>(now, oper). from_current_copy oper) retries"
    by (simp add: queued_db_def retries_def)
  from inst h have "\<forall>i < length (rows queued_db).
          job_id (rows (run_ops retries queued_db) ! i) = job_id (rows queued_db ! i) \<and>
          attempt_count (rows queued_db ! i) \<le> attempt_count (rows (run_ops retries queued_db) ! i)"
    by blast
  then have a: "attempt_count (rows queued_db ! 0) \<le> attempt_count (rows (run_ops retries queued_db) ! 0)"
    by (simp add: queued_db_def)
  have "run_ops retries queued_db =
     \<lparr> fault = None,
       rows = [queued_row\<lparr> status := Failed, attempt_count := 2, last_error := Some ''HTTP 500'',
                           next_attempt_at := Some 100001, updated_at := 40001 \<rparr>] \<rparr>"
    using two_failures_run by (simp only: queued_db_run)
  then have b: "attempt_count (rows (run_ops retries queued_db) ! 0) = 2"
    by simp
  have k: "fault due_db = None \<and> distinct (map job_id (rows due_db)) \<and>
           fresh_row \<in> set (rows due_db) \<and>
           (status fresh_row = Pending \<or> status fresh_row = Failed)"
    by (simp add: due_db_def fresh_row_def example_row_def)
  from step k have c: "map attempt_count (rows (snd (markWebhookDeliveryProcessing 100 fresh_row due_db)))
        = map (\<lambda>x. if job_id x = job_id fresh_row then attempt_count x + 1 else attempt_count x)
            (rows due_db)"
    by blast
  from inst have d: "map attempts (rows (snd (markWebhookDeliveryProcessing_lite 100 fresh_row_lite due_db_lite)))
     = map attempts (rows due_db_lite)"
    by blast
  have v: "map (\<lambda>x. if job_id x = job_id fresh_row then attempt_count x + 1 else attempt_count x)
            (rows due_db) = [1, 1, 0, 0]"
    "map attempts (rows due_db_lite) = [1, 0]"
    by (simp_all add: due_db_def due_db_lite_def fresh_row_def example_row_def example_row_lite_def)
  show ?thesis using a b c d v by simp
qed


subsection \<open>The retry ceiling\<close>

lemma find_map_ids:
  assumes "\<And>r. job_id (f r) = job_id r"
  shows "find (\<lambda>r. job_id r = i) (map f xs) = map_option f (find (\<lambda>r. job_id r = i) xs)"
  using assms by (induction xs) auto

lemma failed_process:
  assumes f: "fault db = None" and d: "distinct (map job_id (rows db))"
    and r: "row_of i db = Some job" and s: "status job = Pending \<or> status job = Failed"
    and n: "\<not> succeeded result"
  shows "\<exists>r'. fault (process_record now job result db) = None \<and>
              map job_id (rows (process_record now job result db)) = map job_id (rows db) \<and>
              row_of i (process_record now job result db) = Some r' \<and>
              attempt_count r' = attempt_count job + 1 \<and> max_retries r' = max_retries job \<and>
              status r' = (if max_retries job \<le> attempt_count job + 1 then Dead_letter else Failed) \<and>
              next_attempt_at r' = Some (now + backoff_delay (attempt_count job + 1))"
proof -
  have j: "job \<in> set (rows db)" "job_id job = i"
    using r find_row unfolding row_of_def by blast+
  let ?won = "claimed now job job"
  let ?db1 = "db\<lparr>rows := map (\<lambda>r. if job_id r = job_id job then ?won else r) (rows db)\<rparr>"
  have w: "markWebhookDeliveryProcessing now job db = (Inr (Some ?won), ?db1)"
    by (rule mark_wins [OF f d j(1) s])
  let ?dead = "deadLetter (decide (attempt_count ?won) (max_retries ?won) now)"
  let ?next = "Some (nextAttemptAt (decide (attempt_count ?won) (max_retries ?won) now))"
  have p: "process_record now job result db
             = snd (failWebhookDelivery now ?won (failure_text result) ?next ?dead ?db1)"
    using n by (cases result) (auto simp: process_record_def w)
  let ?g = "\<lambda>r. if job_id r = job_id ?won
                then r\<lparr> status := (if ?dead then Dead_letter else Failed),
                        last_error := Some (failure_text result),
                        next_attempt_at := ?next, updated_at := now \<rparr>
                else r"
  let ?h = "\<lambda>r. if job_id r = job_id job then ?won else r"
  have rows: "rows (process_record now job result db) = map ?g (map ?h (rows db))"
    unfolding p using f by (simp add: failWebhookDelivery_def)
  have fl: "fault (process_record now job result db) = None"
    unfolding p using f by (simp add: failWebhookDelivery_def)
  have idh: "\<And>r. job_id (?h r) = job_id r" by (simp add: claimed_def)
  have idg: "\<And>r. job_id (?g r) = job_id r" by simp
  have ids: "map job_id (rows (process_record now job result db)) = map job_id (rows db)"
    unfolding rows using idh idg by simp
  have "find (\<lambda>r. job_id r = i) (map ?g (map ?h (rows db)))
          = map_option ?g (map_option ?h (find (\<lambda>r. job_id r = i) (rows db)))"
    using find_map_ids [of ?g i "map ?h (rows db)"] find_map_ids [of ?h i "rows db"] idh idg
    by simp
  then have ro: "row_of i (process_record now job result db) = Some (?g (?h job))"
    unfolding row_of_def rows using r by (simp add: row_of_def)
  have "attempt_count (?g (?h job)) = attempt_count job + 1 \<and>
        max_retries (?g (?h job)) = max_retries job \<and>
        status (?g (?h job)) = (if max_retries job \<le> attempt_count job + 1 then Dead_letter else Failed) \<and>
        next_attempt_at (?g (?h job)) = Some (now + backoff_delay (attempt_count job + 1))"
    by (simp add: claimed_def decide_def)
  then show ?thesis using fl ids ro by blast
qed























subsection \<open>The backoff schedule\<close>

lemma backoff_doubles: "1 \<le> a \<Longrightarrow> backoff_delay (a + 1) = 2 * backoff_delay a"
proof -
  assume a: "1 \<le> a"
  then have "nat (a + 1 - 1) = Suc (nat (a - 1))" by simp
  then show ?thesis by (simp add: backoff_delay_def)
qed

lemma backoff_positive: "0 < backoff_delay a"
  by (simp add: backoff_delay_def backoff_base_def)

lemma int_less_two_power: "int n < 2 ^ n"
proof (induction n)
  case 0
  show ?case by simp
next
  case (Suc n)
  have "(1 :: int) \<le> 2 ^ n" by simp
  moreover have "int n < 2 ^ n" by (rule Suc.IH)
  ultimately have "1 + int n < 2 ^ n + 2 ^ n" by linarith
  then show ?case by simp
qed

lemma backoff_unbounded: "\<exists>a. cap < backoff_delay a"
proof -
  have "cap \<le> int (nat cap)" by simp
  also have "\<dots> < 2 ^ nat cap" by (rule int_less_two_power)
  also have "\<dots> \<le> backoff_base * 2 ^ nat cap" by (simp add: backoff_base_def)
  also have "\<dots> = backoff_delay (int (nat cap) + 1)" by (simp add: backoff_delay_def)
  finally show ?thesis by blast
qed

text \<open>
  Claim C10, for the policy as the spec describes it. The delay after the attempt numbered
  \<open>a\<close> is \<open>30000 * 2 ^ (a - 1)\<close> milliseconds; an attempt with \<open>1 \<le> a < maxRetries\<close> is
  retried, not dead-lettered, at \<open>now\<close> plus that delay; the delay doubles from one attempt
  to the next, so with a clock that does not run backwards the next attempt time computed
  after attempt \<open>a + 1\<close> is strictly later than the one computed after attempt \<open>a\<close>; the
  first delays are 30 s, 60 s, 120 s, 240 s and 480 s; no bound holds for all delays. A
  failed round of the worker below the ceiling stores exactly that time in
  \<^verbatim>\<open>next_attempt_at\<close>.
\<close>

theorem C10_backoff_schedule:
  "backoff_delay a = 30000 * 2 ^ nat (a - 1) \<and>
   (1 \<le> a \<and> a < m \<longrightarrow>
      retry (decide a m now) \<and> \<not> deadLetter (decide a m now) \<and>
      nextAttemptAt (decide a m now) = now + 30000 * 2 ^ nat (a - 1)) \<and>
   (1 \<le> a \<and> now \<le> now' \<longrightarrow>
      backoff_delay (a + 1) = 2 * backoff_delay a \<and>
      nextAttemptAt (decide a m now) < nextAttemptAt (decide (a + 1) m now')) \<and>
   map backoff_delay [1, 2, 3, 4, 5] = [30000, 60000, 120000, 240000, 480000] \<and>
   (\<exists>k. cap < backoff_delay k) \<and>
   (fault db = None \<and> distinct (map job_id (rows db)) \<and> row_of i db = Some job \<and>
    (status job = Pending \<or> status job = Failed) \<and> \<not> succeeded result \<and>
    attempt_count job + 1 < max_retries job \<longrightarrow>
      (\<exists>r'. row_of i (process_record now job result db) = Some r' \<and> status r' = Failed \<and>
            next_attempt_at r' = Some (now + backoff_delay (attempt_count job + 1))))"
proof (intro conjI impI)
  show "backoff_delay a = 30000 * 2 ^ nat (a - 1)"
    by (simp add: backoff_delay_def backoff_base_def)
next
  assume "1 \<le> a \<and> a < m"
  then show "retry (decide a m now)" by (simp add: decide_def)
next
  assume "1 \<le> a \<and> a < m"
  then show "\<not> deadLetter (decide a m now)" by (simp add: decide_def)
next
  show "nextAttemptAt (decide a m now) = now + 30000 * 2 ^ nat (a - 1)"
    by (simp add: decide_def backoff_delay_def backoff_base_def)
next
  assume "1 \<le> a \<and> now \<le> now'"
  then show "backoff_delay (a + 1) = 2 * backoff_delay a" using backoff_doubles by blast
next
  assume h: "1 \<le> a \<and> now \<le> now'"
  then have "backoff_delay (a + 1) = 2 * backoff_delay a" using backoff_doubles by blast
  moreover have "0 < backoff_delay a" by (rule backoff_positive)
  ultimately have "backoff_delay a < backoff_delay (a + 1)" by simp
  then show "nextAttemptAt (decide a m now) < nextAttemptAt (decide (a + 1) m now')"
    using h by (simp add: decide_def)
next
  show "map backoff_delay [1, 2, 3, 4, 5] = [30000, 60000, 120000, 240000, 480000]"
    by (simp add: backoff_delay_def backoff_base_def)
next
  show "\<exists>k. cap < backoff_delay k" by (rule backoff_unbounded)
next
  assume h: "fault db = None \<and> distinct (map job_id (rows db)) \<and> row_of i db = Some job \<and>
    (status job = Pending \<or> status job = Failed) \<and> \<not> succeeded result \<and>
    attempt_count job + 1 < max_retries job"
  then obtain r' where "row_of i (process_record now job result db) = Some r'"
      "status r' = (if max_retries job \<le> attempt_count job + 1 then Dead_letter else Failed)"
      "next_attempt_at r' = Some (now + backoff_delay (attempt_count job + 1))"
    using failed_process [of db i job result now] by blast
  then show "\<exists>r'. row_of i (process_record now job result db) = Some r' \<and> status r' = Failed \<and>
            next_attempt_at r' = Some (now + backoff_delay (attempt_count job + 1))"
    using h by simp
qed

theorem C10_backoff_schedule_witness:
  "retry (decide 1 5 0) \<and> nextAttemptAt (decide 1 5 0) = 30000 \<and>
   nextAttemptAt (decide 1 5 0) < nextAttemptAt (decide 2 5 30000) \<and>
   nextAttemptAt (decide 2 5 30000) = 90000"
proof -
  have h: "(1 :: int) \<le> 1 \<and> (1 :: int) < 5" "(1 :: int) \<le> 1 \<and> (0 :: int) \<le> 30000" by simp_all
  have v: "nextAttemptAt (decide 2 5 30000) = 90000"
    by (simp add: decide_def backoff_delay_def backoff_base_def)
  show ?thesis using C10_backoff_schedule [of 1 5 0 30000 0 empty_db 0 queued_row "Responded 500"] h v by simp
qed


subsection \<open>Queueing never throws\<close>

lemma inline_loop_sent:
  "sent (inline_loop net now accountId msgData whs fx)
     = sent fx @ map (\<lambda>wh. inline_request now accountId wh msgData) whs"
  by (induction whs arbitrary: fx) (auto split: sum.splits)

lemma inline_loop_logged:
  "length (logged (inline_loop net now accountId msgData whs fx))
     = length (logged fx)
       + length (filter (\<lambda>wh. isl (axios_post net (inline_request now accountId wh msgData))) whs)"
  by (induction whs arbitrary: fx) (auto split: sum.splits)

lemma wrapper_returns:
  "fst (queueWebhookDeliveries getWebhooks svc accountId messageData) = Inr ()"
  by (auto simp: queueWebhookDeliveries_def Let_def split: sum.splits prod.splits)

lemma lite_wrapper_returns:
  "fst (queueWebhooks net now loaded getWebhooks accountId msgData) = Inr ()"
  by (auto simp: queueWebhooks_def Let_def split: sum.splits prod.splits)

lemma lite_wrapper_inline:
  "filter is_active ws \<noteq> [] \<Longrightarrow>
   queueWebhooks net now LoadThrows (Inr (Some ws)) accountId msgData
     = queueDeliveries_inline net now accountId (filter is_active ws) msgData"
  by (simp add: queueWebhooks_def getWebhookService_def queueDeliveries_inline_def)

text \<open>
  Claim C7. The inline \<^verbatim>\<open>queueDeliveries\<close> returns normally for every network and every
  list of webhooks, sends one request per webhook, in order, whatever happened to the
  earlier ones, and logs one line per failed request. \<^verbatim>\<open>queueWebhookDeliveries\<close> and
  \<^verbatim>\<open>_queueWebhooks\<close> return normally whatever \<^verbatim>\<open>db.getWebhooks\<close> and the delivery
  service do, throwing included; with the inline fallback every active webhook of the
  account gets its request.
\<close>

theorem C7_no_exception:
  "fst (queueDeliveries_inline net now accountId webhooks msgData) = Inr () \<and>
   sent (snd (queueDeliveries_inline net now accountId webhooks msgData))
     = map (\<lambda>wh. inline_request now accountId wh msgData) webhooks \<and>
   map target (sent (snd (queueDeliveries_inline net now accountId webhooks msgData)))
     = map url webhooks \<and>
   length (logged (snd (queueDeliveries_inline net now accountId webhooks msgData)))
     = length (filter (\<lambda>wh. isl (axios_post net (inline_request now accountId wh msgData)))
                 webhooks) \<and>
   fst (queueWebhookDeliveries getWebhooks svc accountId msgData) = Inr () \<and>
   fst (queueWebhooks net now loaded getWebhooks accountId msgData) = Inr () \<and>
   sent (snd (queueWebhooks net now LoadThrows (Inr (Some stored)) accountId msgData))
     = map (\<lambda>wh. inline_request now accountId wh msgData) (filter is_active stored)"
proof (intro conjI)
  show "fst (queueDeliveries_inline net now accountId webhooks msgData) = Inr ()"
    by (simp add: queueDeliveries_inline_def)
  show s: "sent (snd (queueDeliveries_inline net now accountId webhooks msgData))
     = map (\<lambda>wh. inline_request now accountId wh msgData) webhooks"
    by (simp add: queueDeliveries_inline_def inline_loop_sent no_effects_def)
  show "map target (sent (snd (queueDeliveries_inline net now accountId webhooks msgData)))
     = map url webhooks"
    unfolding s by (simp add: inline_request_def)
  show "length (logged (snd (queueDeliveries_inline net now accountId webhooks msgData)))
     = length (filter (\<lambda>wh. isl (axios_post net (inline_request now accountId wh msgData)))
                 webhooks)"
    by (simp add: queueDeliveries_inline_def inline_loop_logged no_effects_def)
  show "fst (queueWebhookDeliveries getWebhooks svc accountId msgData) = Inr ()"
    by (rule wrapper_returns)
  show "fst (queueWebhooks net now loaded getWebhooks accountId msgData) = Inr ()"
    by (rule lite_wrapper_returns)
  show "sent (snd (queueWebhooks net now LoadThrows (Inr (Some stored)) accountId msgData))
     = map (\<lambda>wh. inline_request now accountId wh msgData) (filter is_active stored)"
  proof (cases "filter is_active stored = []")
    case True
    then show ?thesis by (simp add: queueWebhooks_def no_effects_def)
  next
    case False
    show ?thesis
      unfolding lite_wrapper_inline [OF False]
      by (simp add: queueDeliveries_inline_def inline_loop_sent no_effects_def)
  qed
qed

theorem C7_no_exception_witness:
  "fst (queueDeliveries_inline flaky_net 0 ''acct'' two_webhooks (JString ''hello'')) = Inr () \<and>
   map target (sent (snd (queueDeliveries_inline flaky_net 0 ''acct'' two_webhooks (JString ''hello''))))
     = [''https://a.test/hook'', ''https://b.test/hook''] \<and>
   length (logged (snd (queueDeliveries_inline flaky_net 0 ''acct'' two_webhooks (JString ''hello''))))
     = 1 \<and>
   fst (queueWebhookDeliveries (Inr (Some two_webhooks)) (\<lambda>a ws m. (Inl ''boom'', no_effects))
          ''acct'' (JString ''hello'')) = Inr ()"
proof -
  have f: "filter (\<lambda>wh. isl (axios_post flaky_net (inline_request 0 ''acct'' wh (JString ''hello''))))
             two_webhooks = [hd two_webhooks]"
    by (simp add: two_webhooks_def axios_post_def flaky_net_def inline_request_def)
  have u: "map url two_webhooks = [''https://a.test/hook'', ''https://b.test/hook'']"
    by (simp add: two_webhooks_def)
  note inst = C7_no_exception [of flaky_net 0 "''acct''" two_webhooks "JString ''hello''"
            "Inr (Some two_webhooks)" "\<lambda>a ws m. (Inl ''boom'', no_effects)" LoadThrows "[]"]
  from inst have a: "fst (queueDeliveries_inline flaky_net 0 ''acct'' two_webhooks (JString ''hello'')) = Inr ()"
    by (elim conjE)
  from inst have b: "map target (sent (snd (queueDeliveries_inline flaky_net 0 ''acct'' two_webhooks (JString ''hello''))))
     = map url two_webhooks"
    by (elim conjE)
  from inst have c: "length (logged (snd (queueDeliveries_inline flaky_net 0 ''acct'' two_webhooks (JString ''hello''))))
     = length (filter (\<lambda>wh. isl (axios_post flaky_net (inline_request 0 ''acct'' wh (JString ''hello''))))
                 two_webhooks)"
    by (elim conjE)
  from inst have d: "fst (queueWebhookDeliveries (Inr (Some two_webhooks)) (\<lambda>a ws m. (Inl ''boom'', no_effects))
          ''acct'' (JString ''hello'')) = Inr ()"
    by (elim conjE)
  show ?thesis unfolding a b c d f u by simp
qed


subsection \<open>The shape of a webhook request\<close>

lemma map_of_spread:
  "map_of (spread extra hs) k =
     (case map_of (rev extra) k of None \<Rightarrow> map_of hs k | Some v \<Rightarrow> Some v)"
  unfolding spread_def
proof (induction extra arbitrary: hs)
  case Nil
  then show ?case by simp
next
  case (Cons a extra)
  obtain k' v' where a: "a = (k', v')" by (cases a)
  show ?case
    using Cons.IH [of "AList.update k' v' hs"]
    by (simp add: a update_conv' map_add_def split: option.splits)
qed

lemma secret_header:
  "map_of (with_secret wh hs) ''X-Webhook-Secret'' =
     (case truthy (secret wh) of None \<Rightarrow> map_of hs ''X-Webhook-Secret'' | Some s \<Rightarrow> Some s)"
  by (simp add: with_secret_def update_conv' split: option.splits)

lemma other_header:
  "k \<noteq> ''X-Webhook-Secret'' \<Longrightarrow> map_of (with_secret wh hs) k = map_of hs k"
  by (simp add: with_secret_def update_conv' split: option.splits)

lemma route_classifies:
  "net (test_request now accountId wh) = Reply s \<Longrightarrow>
   test_route net now accountId (Inr (Some wh))
     = (Tested (200 \<le> s \<and> s < 300) s, [test_request now accountId wh])"
  by (simp add: test_route_def axios_post_def test_request_def)

lemma route_lite_classifies:
  "net (test_request_lite now accountId wh) = Reply s \<Longrightarrow>
   test_route_lite net now accountId (Inr (Some wh))
     = (Tested (200 \<le> s \<and> s < 300) s, [test_request_lite now accountId wh])"
  by (simp add: test_route_lite_def axios_post_def test_request_lite_def)

text \<open>
  Claim C9, as amended. A test request of either route is a POST to the webhook's url with
  a timeout of 10000 ms that accepts every status code, and the route reports success
  exactly for a status from 200 to 299. In index.optimized.js the request carries
  \<^verbatim>\<open>Content-Type: application/json\<close> and carries \<^verbatim>\<open>X-Webhook-Secret\<close> with the raw
  secret exactly when the webhook has a non-empty secret. In index.lite.js the secret
  header is set the same way, but the headers configured on the webhook are merged over
  the fixed ones: they replace \<^verbatim>\<open>Content-Type\<close> when they carry one and supply
  \<^verbatim>\<open>X-Webhook-Secret\<close> when they carry one and no secret is configured. The inline
  fallback posts with the same timeout, with the configured headers only, and with the
  default validation of the status: a status outside 200 to 299 is a rejection.
\<close>

theorem C9_test_requests:
  "snd (test_route net now accountId (Inr (Some wh))) = [test_request now accountId wh] \<and>
   verb (test_request now accountId wh) = ''POST'' \<and>
   target (test_request now accountId wh) = url wh \<and>
   timeout_ms (test_request now accountId wh) = 10000 \<and>
   any_status (test_request now accountId wh) \<and>
   map_of (req_headers (test_request now accountId wh)) ''Content-Type'' = Some ''application/json'' \<and>
   map_of (req_headers (test_request now accountId wh)) ''X-Webhook-Secret'' = truthy (secret wh) \<and>
   (net (test_request now accountId wh) = Reply s \<longrightarrow>
      fst (test_route net now accountId (Inr (Some wh))) = Tested (200 \<le> s \<and> s < 300) s) \<and>
   snd (test_route_lite net now accountId (Inr (Some wh))) = [test_request_lite now accountId wh] \<and>
   verb (test_request_lite now accountId wh) = ''POST'' \<and>
   target (test_request_lite now accountId wh) = url wh \<and>
   timeout_ms (test_request_lite now accountId wh) = 10000 \<and>
   any_status (test_request_lite now accountId wh) \<and>
   map_of (req_headers (test_request_lite now accountId wh)) ''Content-Type''
     = (case map_of (rev (case headers wh of None \<Rightarrow> [] | Some h \<Rightarrow> h)) ''Content-Type'' of
          None \<Rightarrow> Some ''application/json'' | Some v \<Rightarrow> Some v) \<and>
   map_of (req_headers (test_request_lite now accountId wh)) ''X-Webhook-Secret''
     = (case truthy (secret wh) of
          Some s \<Rightarrow> Some s
        | None \<Rightarrow> map_of (rev (case headers wh of None \<Rightarrow> [] | Some h \<Rightarrow> h)) ''X-Webhook-Secret'') \<and>
   (net (test_request_lite now accountId wh) = Reply s \<longrightarrow>
      fst (test_route_lite net now accountId (Inr (Some wh))) = Tested (200 \<le> s \<and> s < 300) s) \<and>
   verb (inline_request now accountId wh msgData) = ''POST'' \<and>
   timeout_ms (inline_request now accountId wh msgData) = 10000 \<and>
   \<not> any_status (inline_request now accountId wh msgData) \<and>
   req_headers (inline_request now accountId wh msgData)
     = (case headers wh of None \<Rightarrow> [] | Some h \<Rightarrow> h) \<and>
   (net (inline_request now accountId wh msgData) = Reply s \<longrightarrow>
      isl (axios_post net (inline_request now accountId wh msgData)) = (\<not> (200 \<le> s \<and> s < 300)))"
proof (intro conjI impI)
  show "snd (test_route net now accountId (Inr (Some wh))) = [test_request now accountId wh]"
    by (simp add: test_route_def split: sum.splits)
  show "verb (test_request now accountId wh) = ''POST''" by (simp add: test_request_def)
  show "target (test_request now accountId wh) = url wh" by (simp add: test_request_def)
  show "timeout_ms (test_request now accountId wh) = 10000" by (simp add: test_request_def)
  show "any_status (test_request now accountId wh)" by (simp add: test_request_def)
  show "map_of (req_headers (test_request now accountId wh)) ''Content-Type'' = Some ''application/json''"
    by (simp add: test_request_def other_header)
  show "map_of (req_headers (test_request now accountId wh)) ''X-Webhook-Secret'' = truthy (secret wh)"
    by (simp add: test_request_def secret_header split: option.splits)
  show "snd (test_route_lite net now accountId (Inr (Some wh))) = [test_request_lite now accountId wh]"
    by (simp add: test_route_lite_def split: sum.splits)
  show "verb (test_request_lite now accountId wh) = ''POST''" by (simp add: test_request_lite_def)
  show "target (test_request_lite now accountId wh) = url wh" by (simp add: test_request_lite_def)
  show "timeout_ms (test_request_lite now accountId wh) = 10000" by (simp add: test_request_lite_def)
  show "any_status (test_request_lite now accountId wh)" by (simp add: test_request_lite_def)
  show "map_of (req_headers (test_request_lite now accountId wh)) ''Content-Type''
     = (case map_of (rev (case headers wh of None \<Rightarrow> [] | Some h \<Rightarrow> h)) ''Content-Type'' of
          None \<Rightarrow> Some ''application/json'' | Some v \<Rightarrow> Some v)"
    by (simp add: test_request_lite_def other_header map_of_spread split: option.splits)
  show "map_of (req_headers (test_request_lite now accountId wh)) ''X-Webhook-Secret''
     = (case truthy (secret wh) of
          Some s \<Rightarrow> Some s
        | None \<Rightarrow> map_of (rev (case headers wh of None \<Rightarrow> [] | Some h \<Rightarrow> h)) ''X-Webhook-Secret'')"
    by (simp add: test_request_lite_def secret_header map_of_spread split: option.splits)
  show "verb (inline_request now accountId wh msgData) = ''POST''" by (simp add: inline_request_def)
  show "timeout_ms (inline_request now accountId wh msgData) = 10000" by (simp add: inline_request_def)
  show "\<not> any_status (inline_request now accountId wh msgData)" by (simp add: inline_request_def)
  show "req_headers (inline_request now accountId wh msgData)
     = (case headers wh of None \<Rightarrow> [] | Some h \<Rightarrow> h)"
    by (simp add: inline_request_def)
next
  assume "net (test_request now accountId wh) = Reply s"
  then show "fst (test_route net now accountId (Inr (Some wh))) = Tested (200 \<le> s \<and> s < 300) s"
    by (simp add: route_classifies)
next
  assume "net (test_request_lite now accountId wh) = Reply s"
  then show "fst (test_route_lite net now accountId (Inr (Some wh))) = Tested (200 \<le> s \<and> s < 300) s"
    by (simp add: route_lite_classifies)
next
  assume "net (inline_request now accountId wh msgData) = Reply s"
  then show "isl (axios_post net (inline_request now accountId wh msgData)) = (\<not> (200 \<le> s \<and> s < 300))"
    by (simp add: axios_post_def inline_request_def)
qed

text \<open>
  The claim as stated fails on two delivery paths. The inline fallback sends no
  \<^verbatim>\<open>X-Webhook-Secret\<close> for a webhook that has a secret, and a response with status 500
  is an exception there. The test route of index.lite.js sends \<^verbatim>\<open>Content-Type:
  text/plain\<close> and an \<^verbatim>\<open>X-Webhook-Secret\<close> for a webhook without a secret whose
  configured headers say so.
\<close>

theorem C9_unsigned_counterexample:
  "secret example_webhook = Some ''s3cret'' \<and>
   sent (snd (queueDeliveries_inline (\<lambda>req. Reply 500) 0 ''acct'' [example_webhook] (JString ''hello'')))
     = [inline_request 0 ''acct'' example_webhook (JString ''hello'')] \<and>
   map_of (req_headers (inline_request 0 ''acct'' example_webhook (JString ''hello'')))
     ''X-Webhook-Secret'' = None \<and>
   axios_post (\<lambda>req. Reply 500) (inline_request 0 ''acct'' example_webhook (JString ''hello''))
     = Inl ''Request failed with status code'' \<and>
   secret plain_text_webhook = None \<and>
   snd (test_route_lite (\<lambda>req. Reply 200) 0 ''acct'' (Inr (Some plain_text_webhook)))
     = [test_request_lite 0 ''acct'' plain_text_webhook] \<and>
   req_headers (test_request_lite 0 ''acct'' plain_text_webhook)
     = [(''Content-Type'', ''text/plain''), (''User-Agent'', ''WhatsApp-Gateway-Lite/1.0''),
        (''X-Webhook-Secret'', ''from-headers'')]"
  by (simp add: example_webhook_def plain_text_webhook_def queueDeliveries_inline_def
        inline_request_def axios_post_def no_effects_def test_route_lite_def
        test_request_lite_def with_secret_def truthy_def spread_def)

theorem C9_test_requests_witness:
  "fst (test_route (\<lambda>req. Reply 503) 0 ''acct'' (Inr (Some example_webhook))) = Tested False 503 \<and>
   fst (test_route_lite (\<lambda>req. Reply 204) 0 ''acct'' (Inr (Some example_webhook))) = Tested True 204 \<and>
   map_of (req_headers (test_request 0 ''acct'' example_webhook)) ''X-Webhook-Secret''
     = Some ''s3cret''"
proof -
  note a = C9_test_requests [of "\<lambda>req. Reply 503" 0 "''acct''" example_webhook 503 "JString ''hello''"]
  note b = C9_test_requests [of "\<lambda>req. Reply 204" 0 "''acct''" example_webhook 204 "JString ''hello''"]
  from a have 1: "fst (test_route (\<lambda>req. Reply 503) 0 ''acct'' (Inr (Some example_webhook)))
      = Tested (200 \<le> (503 :: int) \<and> (503 :: int) < 300) 503"
    by simp
  from b have 2: "fst (test_route_lite (\<lambda>req. Reply 204) 0 ''acct'' (Inr (Some example_webhook)))
      = Tested (200 \<le> (204 :: int) \<and> (204 :: int) < 300) 204"
    by simp
  from a have 3: "map_of (req_headers (test_request 0 ''acct'' example_webhook)) ''X-Webhook-Secret''
     = truthy (secret example_webhook)"
    by (elim conjE)
  show ?thesis unfolding 1 2 3 by (simp add: example_webhook_def truthy_def)
qed


subsection \<open>The fallback of the facade\<close>

lemma nothing_yet: "sent no_effects = [] \<and> logged no_effects = []"
  by (simp add: no_effects_def)

lemma facade_missing:
  assumes "fault db = Some e" and "isWebhookQueueMissingError e"
  shows "facade_loop net now accountId content whs (unavailable, db, fx)
           = (unavailable \<or> whs \<noteq> [], db, foldl (\<lambda>acc wh. direct_attempt net content wh acc) fx whs)"
  using assms
proof (induction whs arbitrary: unavailable fx)
  case Nil
  then show ?case by simp
next
  case (Cons wh whs)
  have e: "enqueueWebhookDelivery now accountId wh content (wh_max_retries wh) db
             = (Inl MissingWebhookQueueTableError, db)"
    using Cons.prems by (simp add: enqueueWebhookDelivery_def raise_for_def)
  show ?case
  proof (cases unavailable)
    case True
    then show ?thesis using Cons.IH [OF Cons.prems, of True] by simp
  next
    case False
    then show ?thesis using Cons.IH [OF Cons.prems, of True] e by simp
  qed
qed

lemma direct_sent:
  "sent (foldl (\<lambda>acc wh. direct_attempt net content wh acc) fx whs)
     = sent fx @ map (\<lambda>wh. delivery_request (url wh) (secret wh) content) whs"
  by (induction whs arbitrary: fx) (simp_all add: direct_attempt_def)

lemma direct_logged:
  "length (logged (foldl (\<lambda>acc wh. direct_attempt net content wh acc) fx whs))
     = length (logged fx)
       + length (filter (\<lambda>wh. \<not> succeeded (deliver_once net (url wh) (secret wh) content)) whs)"
  by (induction whs arbitrary: fx) (simp_all add: direct_attempt_def)

text \<open>
  Claim C8, for the facade as the spec describes it. While the store answers enqueue with
  the signal of the missing table, \<^verbatim>\<open>queueDeliveries\<close> returns normally, leaves the
  database as it was (no record is written), sends exactly one request per webhook of the
  call, in order, logs one line per failed attempt and remembers that the queue is
  unavailable. The inline fallback of the lite manager, which is chosen when the delivery
  service cannot be loaded, also sends exactly one request per webhook and has no access
  to the store.
\<close>

theorem C8_fallback:
  "(fault db = Some e \<and> isWebhookQueueMissingError e \<longrightarrow>
      fst (queueDeliveries net now accountId webhooks content (unavailable, db)) = Inr () \<and>
      fst (snd (snd (queueDeliveries net now accountId webhooks content (unavailable, db)))) = db \<and>
      sent (snd (snd (snd (queueDeliveries net now accountId webhooks content (unavailable, db)))))
        = map (\<lambda>wh. delivery_request (url wh) (secret wh) content) webhooks \<and>
      map target (sent (snd (snd (snd
          (queueDeliveries net now accountId webhooks content (unavailable, db))))))
        = map url webhooks \<and>
      length (logged (snd (snd (snd
          (queueDeliveries net now accountId webhooks content (unavailable, db))))))
        = length (filter (\<lambda>wh. \<not> succeeded (deliver_once net (url wh) (secret wh) content))
                    webhooks) \<and>
      fst (snd (queueDeliveries net now accountId webhooks content (unavailable, db)))
        = (unavailable \<or> webhooks \<noteq> [])) \<and>
   getWebhookService net now LoadThrows = queueDeliveries_inline net now \<and>
   map target (sent (snd (queueDeliveries_inline net now accountId webhooks content)))
     = map url webhooks"
proof (intro conjI impI)
  assume a: "fault db = Some e \<and> isWebhookQueueMissingError e"
  then have l: "facade_loop net now accountId content webhooks (unavailable, db, no_effects)
           = (unavailable \<or> webhooks \<noteq> [], db,
              foldl (\<lambda>acc wh. direct_attempt net content wh acc) no_effects webhooks)"
    using facade_missing by blast
  show "fst (queueDeliveries net now accountId webhooks content (unavailable, db)) = Inr ()"
    by (simp add: queueDeliveries_def)
  show "fst (snd (snd (queueDeliveries net now accountId webhooks content (unavailable, db)))) = db"
    by (simp add: queueDeliveries_def l)
  show s: "sent (snd (snd (snd (queueDeliveries net now accountId webhooks content (unavailable, db)))))
        = map (\<lambda>wh. delivery_request (url wh) (secret wh) content) webhooks"
    by (simp add: queueDeliveries_def l direct_sent nothing_yet)
  show "map target (sent (snd (snd (snd
          (queueDeliveries net now accountId webhooks content (unavailable, db))))))
        = map url webhooks"
    unfolding s by (simp add: delivery_request_def)
  show "length (logged (snd (snd (snd
          (queueDeliveries net now accountId webhooks content (unavailable, db))))))
        = length (filter (\<lambda>wh. \<not> succeeded (deliver_once net (url wh) (secret wh) content))
                    webhooks)"
    by (simp add: queueDeliveries_def l direct_logged nothing_yet)
  show "fst (snd (queueDeliveries net now accountId webhooks content (unavailable, db)))
        = (unavailable \<or> webhooks \<noteq> [])"
    by (simp add: queueDeliveries_def l)
next
  show "getWebhookService net now LoadThrows = queueDeliveries_inline net now"
    by (simp add: getWebhookService_def)
  show "map target (sent (snd (queueDeliveries_inline net now accountId webhooks content)))
     = map url webhooks"
    by (simp add: queueDeliveries_inline_def inline_loop_sent no_effects_def inline_request_def)
qed

theorem C8_fallback_witness:
  "fst (snd (snd (queueDeliveries flaky_net 0 ''acct'' two_webhooks (JString ''hello'')
                    (False, missing_db)))) = missing_db \<and>
   map target (sent (snd (snd (snd
       (queueDeliveries flaky_net 0 ''acct'' two_webhooks (JString ''hello'') (False, missing_db))))))
     = [''https://a.test/hook'', ''https://b.test/hook''] \<and>
   rows missing_db = []"
proof -
  have h: "fault missing_db = Some missing_table \<and> isWebhookQueueMissingError missing_table"
    using missing_table_recognised by (simp add: missing_db_def)
  note inst = C8_fallback [of missing_db missing_table flaky_net 0 "''acct''" two_webhooks
      "JString ''hello''" False]
  from inst h have a: "fst (snd (snd (queueDeliveries flaky_net 0 ''acct'' two_webhooks (JString ''hello'')
                    (False, missing_db)))) = missing_db"
    by blast
  from inst h have b: "map target (sent (snd (snd (snd
       (queueDeliveries flaky_net 0 ''acct'' two_webhooks (JString ''hello'') (False, missing_db))))))
     = map url two_webhooks"
    by blast
  show ?thesis unfolding a b by (simp add: two_webhooks_def missing_db_def)
qed


end
